theory Spec2Isabelle
  imports Main "HOL-Library.Signed_Division"
begin

section \<open>Python strings\<close>

text \<open>
  A Python \<open>str\<close> is modelled as the list of its code points, each below 256 (the Latin-1
  range), so one \<open>char\<close> is one code point. \<open>str.lower\<close>, \<open>str.isspace\<close>,
  \<open>str.strip\<close> and \<open>str.endswith\<close> are written out for that range.
\<close>

definition lower_char :: "char \<Rightarrow> char" where
  "lower_char c =
     (let n = (of_char c :: nat)
      in if (65 \<le> n \<and> n \<le> 90) \<or> (192 \<le> n \<and> n \<le> 222 \<and> n \<noteq> 215)
         then char_of (n + 32) else c)"

definition lower :: "string \<Rightarrow> string" where
  "lower s = map lower_char s"

definition endswith :: "string \<Rightarrow> string \<Rightarrow> bool" where
  "endswith s suf = (length suf \<le> length s \<and> drop (length s - length suf) s = suf)"

definition startswith :: "string \<Rightarrow> string \<Rightarrow> bool" where
  "startswith s pre = (take (length pre) s = pre)"

definition isspace :: "char \<Rightarrow> bool" where
  "isspace c =
     (let n = (of_char c :: nat)
      in (9 \<le> n \<and> n \<le> 13) \<or> (28 \<le> n \<and> n \<le> 32) \<or> n = 133 \<or> n = 160)"

definition strip :: "string \<Rightarrow> string" where
  "strip s = rev (dropWhile isspace (rev (dropWhile isspace s)))"

definition digit_char :: "nat \<Rightarrow> char" where
  "digit_char d = ''0123456789'' ! d"

fun str_nat :: "nat \<Rightarrow> string" where
  "str_nat n = (if n < 10 then [digit_char n] else str_nat (n div 10) @ [digit_char (n mod 10)])"

declare str_nat.simps [simp del]

definition str_int :: "int \<Rightarrow> string" where
  \<comment> \<open>\<open>str(i)\<close>, also what an f-string writes for an int\<close>
  "str_int i = (if i < 0 then CHR ''-'' # str_nat (nat (- i)) else str_nat (nat i))"

section \<open>Exceptions, log records and handler outcomes\<close>

text \<open>
  Every exception the handlers can meet is a value. \<open>IOError\<close> stands for Python's
  \<open>OSError\<close> family (what \<open>except IOError\<close> catches), \<open>Exception\<close> for any class that is
  neither that nor a \<open>ValueError\<close> nor an \<open>HTTPException\<close>. The detail of the 500 answer is
  \<open>f"Internal Server Error: {str(e)}\n\n{traceback}"\<close>; it is kept as the wrapped exception.
  A log record is its level, the message with \<open>{}\<close> in the place of \<open>str(e)\<close>, and \<open>e\<close>.
\<close>

datatype exn =
    IOError string
  | ValueError string
  | Exception string
  | HTTPException int detail
and detail =
    Detail string
  | InternalServerError exn

datatype level = WARNING | ERROR

type_synonym log_record = "level \<times> string \<times> exn"

text \<open>
  What a request handler hands to the framework: a returned body, an explicit
  \<open>JSONResponse(content, status_code)\<close>, or an exception leaving the handler.
\<close>

datatype 'a outcome = Return 'a | JSONResponse string int | Raise exn

fun status_code :: "'a outcome \<Rightarrow> int" where
  "status_code (Return _) = 200"
| "status_code (JSONResponse _ c) = c"
| "status_code (Raise (HTTPException c _)) = c"
| "status_code (Raise _) = 500"

section \<open>The document: python-pptx objects\<close>

type_synonym bytes = "char list"

record shape =
  shape_type :: int
  image_blob :: bytes
  shape_left :: int
  shape_top :: int
  shape_width :: int
  shape_height :: int
  has_text_frame :: bool
  paragraphs :: "string list list"

record slide =
  shapes :: "shape list"

record presentation =
  slide_width :: int
  slide_height :: int
  slides :: "slide list"

section \<open>Raster images: the operations of the imaging library\<close>

text \<open>
  An image is its size and its pixel at every coordinate. All operations below act inside
  the image's bounds and leave the pixel function outside them as it was. Coordinates and
  requested sizes are Python ints; the size of an existing image is never negative.
\<close>

type_synonym rgb = "nat \<times> nat \<times> nat"
type_synonym rgba = "nat \<times> nat \<times> nat \<times> nat"

record 'p image =
  im_size :: "nat \<times> nat"
  im_data :: "int \<Rightarrow> int \<Rightarrow> 'p"

text \<open>
  \<open>Image.open\<close> is lazy: it reads the header and identifies the format, and the pixel data
  is decoded when the image is first used (\<open>load\<close>, which \<open>resize\<close> calls). An opened image
  is therefore what decoding its pixel data will yield: the pixels as they are pasted into
  an RGB canvas, or the exception raised then (a truncated file raises \<open>IOError\<close> there).
\<close>

datatype image_file = ImageFile "exn + rgb image"

fun load :: "image_file \<Rightarrow> exn + rgb image" where
  "load (ImageFile r) = r"

text \<open>
  The parts of the libraries and of the operating system that the repository does not
  contain are parameters: what \<open>Image.open(BytesIO(blob))\<close> yields for a payload (an opened
  image, or the exception raised for a payload it cannot identify), the resampling filter
  of \<open>resize\<close> for a size of at least one pixel each way (the new pixels, or the exception
  raised, as for a size the library cannot allocate), the coverage mask the default font
  gives for a text (at offsets from the anchor, 0 to 255, or the exception raised for a
  text the font cannot encode), the parser behind \<open>Presentation(path)\<close>, and the answer of
  \<open>open(path, "wb")\<close> for the temporary copy of the upload (\<open>FileNotFoundError\<close> for a name
  with a path separator, for one). What is written out is the library's behaviour that
  the handlers rely on: the size checks of \<open>Image.new\<close> and \<open>resize\<close>, the range check and the
  clipping of \<open>paste\<close>, the refusal of \<open>save\<close> to write an image with a zero side, blending
  of a mask into an image, and \<open>alpha_composite\<close> with its integer arithmetic.
\<close>

record library =
  Image_open_blob :: "bytes \<Rightarrow> exn + image_file"
  resample :: "rgb image \<Rightarrow> int \<times> int \<Rightarrow> exn + (int \<Rightarrow> int \<Rightarrow> rgb)"
  getmask :: "string \<Rightarrow> exn + (int \<Rightarrow> int \<Rightarrow> nat)"
  Presentation :: "bytes \<Rightarrow> exn + presentation"
  open_wb :: "string \<Rightarrow> exn + unit"

definition inside :: "'p image \<Rightarrow> int \<Rightarrow> int \<Rightarrow> bool" where
  "inside im x y = (0 \<le> x \<and> x < int (fst (im_size im)) \<and> 0 \<le> y \<and> y < int (snd (im_size im)))"

definition Image_new :: "int \<times> int \<Rightarrow> 'p \<Rightarrow> exn + 'p image" where
  "Image_new sz color =
     (if fst sz < 0 \<or> snd sz < 0 then Inl (ValueError ''Width and height must be >= 0'')
      else Inr \<lparr>im_size = (nat (fst sz), nat (snd sz)), im_data = \<lambda>x y. color\<rparr>)"

definition Image_resize :: "library \<Rightarrow> image_file \<Rightarrow> int \<times> int \<Rightarrow> exn + rgb image" where
  \<comment> \<open>\<open>pil_img.resize(size)\<close>: the pixel data is loaded first\<close>
  "Image_resize lib pil_img sz =
     (case load pil_img of
        Inl e \<Rightarrow> Inl e
      | Inr im \<Rightarrow>
          if (int (fst (im_size im)), int (snd (im_size im))) = sz then Inr im
          else if fst sz < 1 \<or> snd sz < 1 then Inl (ValueError ''height and width must be > 0'')
          else
            (case resample lib im sz of
               Inl e \<Rightarrow> Inl e
             | Inr px \<Rightarrow> Inr \<lparr>im_size = (nat (fst sz), nat (snd sz)), im_data = px\<rparr>))"

definition fits_C_int :: "int \<Rightarrow> bool" where
  "fits_C_int v = (- (2 ^ 31) \<le> v \<and> v < 2 ^ 31)"

definition Image_paste :: "'p image \<Rightarrow> 'p image \<Rightarrow> int \<times> int \<Rightarrow> exn + 'p image" where
  \<comment> \<open>\<open>dst.paste(src, (left, top))\<close>: the box \<open>(left, top, left + w, top + h)\<close> is handed over
      as four C ints; the part of it outside \<open>dst\<close> is clipped\<close>
  "Image_paste dst src xy =
     (if fits_C_int (fst xy) \<and> fits_C_int (snd xy) \<and>
         fits_C_int (fst xy + int (fst (im_size src))) \<and>
         fits_C_int (snd xy + int (snd (im_size src)))
      then Inr (dst\<lparr>im_data := \<lambda>x y.
                  if inside dst x y \<and> inside src (x - fst xy) (y - snd xy)
                  then im_data src (x - fst xy) (y - snd xy) else im_data dst x y\<rparr>)
      else Inl (Exception ''OverflowError: Python int too large to convert to C int''))"

definition Image_save :: "rgb image \<Rightarrow> string \<Rightarrow> (string \<rightharpoonup> rgb image) \<Rightarrow> exn + (string \<rightharpoonup> rgb image)" where
  \<comment> \<open>\<open>img.save(path)\<close> on the disk given last: an image with a zero side is not written\<close>
  "Image_save img path fs =
     (if fst (im_size img) = 0 \<or> snd (im_size img) = 0
      then Inl (Exception ''SystemError: tile cannot extend outside image'')
      else Inr (fs(path \<mapsto> img)))"

definition SHIFTFORDIV255 :: "nat \<Rightarrow> nat" where
  "SHIFTFORDIV255 a = ((a div 256) + a) div 256"

definition DIV255 :: "nat \<Rightarrow> nat" where
  "DIV255 a = SHIFTFORDIV255 (a + 128)"

definition BLEND :: "nat \<Rightarrow> nat \<Rightarrow> nat \<Rightarrow> nat" where
  "BLEND m in1 in2 = DIV255 (in1 * (255 - m) + in2 * m)"

fun blend_rgb :: "nat \<Rightarrow> rgb \<Rightarrow> rgb \<Rightarrow> rgb" where
  "blend_rgb m (r, g, b) (ir, ig, ib) = (BLEND m r ir, BLEND m g ig, BLEND m b ib)"

fun blend_rgba :: "nat \<Rightarrow> rgba \<Rightarrow> rgba \<Rightarrow> rgba" where
  \<comment> \<open>on an image with an alpha channel the colour channels of a covered pixel are blended
      with \<open>255 - (255 - m) * (1 - (255 - a) / 255)\<close> in integer arithmetic: over a fully
      transparent pixel the ink colour is written as it is, and only alpha takes \<open>m\<close>\<close>
  "blend_rgba m (r, g, b, a) (ir, ig, ib, ia) =
     (let cm = (if m \<noteq> 0 then 255 - (255 - m) * (1 - (255 - a) div 255) else m)
      in (BLEND cm r ir, BLEND cm g ig, BLEND cm b ib, BLEND m a ia))"

definition ImageDraw_text ::
  "(nat \<Rightarrow> 'p \<Rightarrow> 'p \<Rightarrow> 'p) \<Rightarrow> library \<Rightarrow> 'p image \<Rightarrow> int \<times> int \<Rightarrow> string \<Rightarrow> 'p \<Rightarrow> exn + 'p image" where
  \<comment> \<open>\<open>draw.text(xy, text, fill=fill, font=font)\<close> with the default font; the first argument
      is the per-pixel blend of the image's mode\<close>
  "ImageDraw_text blend lib im xy text fill =
     (case getmask lib text of
        Inl e \<Rightarrow> Inl e
      | Inr cover \<Rightarrow>
          Inr (im\<lparr>im_data := \<lambda>x y.
                 if inside im x y then blend (cover (x - fst xy) (y - snd xy)) (im_data im x y) fill
                 else im_data im x y\<rparr>))"

definition convert_RGBA :: "rgb image \<Rightarrow> rgba image" where
  "convert_RGBA im =
     \<lparr>im_size = im_size im,
      im_data = \<lambda>x y. (case im_data im x y of (r, g, b) \<Rightarrow> (r, g, b, 255))\<rparr>"

definition convert_RGB :: "rgba image \<Rightarrow> rgb image" where
  "convert_RGB im =
     \<lparr>im_size = im_size im,
      im_data = \<lambda>x y. (case im_data im x y of (r, g, b, a) \<Rightarrow> (r, g, b))\<rparr>"

fun alpha_composite_px :: "rgba \<Rightarrow> rgba \<Rightarrow> rgba" where
  "alpha_composite_px (dr, dg, db, da) (sr, sg, sb, sa) =
     (if sa = 0 then (dr, dg, db, da)
      else
        let blend = da * (255 - sa);
            outa255 = sa * 255 + blend;
            coef1 = sa * 255 * 255 * 128 div outa255;
            coef2 = 255 * 128 - coef1
        in (SHIFTFORDIV255 (sr * coef1 + dr * coef2 + 128 * 128) div 128,
            SHIFTFORDIV255 (sg * coef1 + dg * coef2 + 128 * 128) div 128,
            SHIFTFORDIV255 (sb * coef1 + db * coef2 + 128 * 128) div 128,
            SHIFTFORDIV255 (outa255 + 128)))"

definition Image_alpha_composite :: "rgba image \<Rightarrow> rgba image \<Rightarrow> exn + rgba image" where
  "Image_alpha_composite im1 im2 =
     (if im_size im1 \<noteq> im_size im2 then Inl (ValueError ''images do not match'')
      else Inr \<lparr>im_size = im_size im1,
                im_data = \<lambda>x y. alpha_composite_px (im_data im1 x y) (im_data im2 x y)\<rparr>)"

section \<open>Process-wide state\<close>

text \<open>
  The module's \<open>comments_store\<close> dictionary, the image files on disk keyed by their path
  (a PNG file is the image it decodes to; a directory is the set of paths below it), and
  the records handed to the logger.
\<close>

record session =
  comments_store :: "int \<rightharpoonup> string list"
  files :: "string \<rightharpoonup> rgb image"
  logged :: "log_record list"

definition OUTPUT_DIR :: string where
  "OUTPUT_DIR = ''slides''"

definition ORIGINAL_DIR :: string where
  "ORIGINAL_DIR = ''original_slides''"

definition path_join :: "string \<Rightarrow> string \<Rightarrow> string" where
  "path_join d f = d @ ''/'' @ f"

definition slide_png :: "int \<Rightarrow> string" where
  \<comment> \<open>\<open>f"slide_{idx}.png"\<close>\<close>
  "slide_png idx = ''slide_'' @ str_int idx @ ''.png''"

definition clear_dir :: "string \<Rightarrow> (string \<rightharpoonup> rgb image) \<Rightarrow> (string \<rightharpoonup> rgb image)" where
  \<comment> \<open>\<open>if os.path.exists(d): shutil.rmtree(d)\<close>, then \<open>os.makedirs(d)\<close>\<close>
  "clear_dir d fs = (\<lambda>p. if startswith p (d @ ''/'') then None else fs p)"

definition shutil_copy :: "string \<Rightarrow> string \<Rightarrow> session \<Rightarrow> (exn + unit) \<times> session" where
  "shutil_copy src dst s =
     (case files s src of
        None \<Rightarrow> (Inl (IOError ''No such file or directory''), s)
      | Some im \<Rightarrow> (Inr (), s\<lparr>files := (files s)(dst \<mapsto> im)\<rparr>))"

section \<open>The rasterizer: \<open>draw_slide_content\<close>\<close>

fun frame_text :: "string list list \<Rightarrow> string \<Rightarrow> string" where
  \<comment> \<open>the loop over \<open>text_frame.paragraphs\<close>; the second argument is \<open>text\<close> so far\<close>
  "frame_text [] text = text"
| "frame_text (runs # rest) text =
     (let para_text = concat runs
      in if strip para_text \<noteq> [] then frame_text rest (text @ para_text @ [CHR 0x0A])
         else frame_text rest text)"

definition draw_shape :: "library \<Rightarrow> shape \<Rightarrow> rgb image \<Rightarrow> (exn + rgb image) \<times> log_record list" where
  \<comment> \<open>one pass through the body of \<open>for shape in slide.shapes\<close>: the canvas after it (or the
      exception that leaves the loop) and the records it logged\<close>
  "draw_shape lib shape img =
     (if shape_type shape = 13 then
        (case Image_open_blob lib (image_blob shape) of
           Inl (IOError m) \<Rightarrow>
             (Inr img, [(WARNING, ''Error opening image in shape: {}. Skipping this image.'', IOError m)])
         | Inl e \<Rightarrow> (Inl e, [])
         | Inr pil_img \<Rightarrow>
             (let left = shape_left shape div 9525;
                  top = shape_top shape div 9525;
                  shape_width = shape_width shape div 9525;
                  shape_height = shape_height shape div 9525
              in case Image_resize lib pil_img (shape_width, shape_height) of
                   Inl e \<Rightarrow> (Inl e, [])
                 | Inr pil_img' \<Rightarrow> (Image_paste img pil_img' (left, top), [])))
      else if has_text_frame shape then
        (let text = frame_text (paragraphs shape) []
         in if strip text = [] then (Inr img, [])
            else
              (let left = shape_left shape div 9525;
                   top = shape_top shape div 9525
               in (ImageDraw_text blend_rgb lib img (left, top) text (0, 0, 0), [])))
      else (Inr img, []))"

fun draw_shapes :: "library \<Rightarrow> shape list \<Rightarrow> rgb image \<Rightarrow> (exn + rgb image) \<times> log_record list" where
  "draw_shapes lib [] img = (Inr img, [])"
| "draw_shapes lib (shape # rest) img =
     (case draw_shape lib shape img of
        (Inl e, lg) \<Rightarrow> (Inl e, lg)
      | (Inr img', lg) \<Rightarrow>
          (case draw_shapes lib rest img' of (r, lg') \<Rightarrow> (r, lg @ lg')))"

definition draw_slide_content ::
  "library \<Rightarrow> slide \<Rightarrow> int \<Rightarrow> int \<Rightarrow> string \<Rightarrow> session \<Rightarrow> (exn + unit) \<times> session" where
  "draw_slide_content lib slide width height output_path s =
     (case Image_new (width, height) (255, 255, 255) of
        Inl e \<Rightarrow> (Inl e, s)
      | Inr img \<Rightarrow>
          (case draw_shapes lib (shapes slide) img of
             (Inl e, lg) \<Rightarrow> (Inl e, s\<lparr>logged := logged s @ lg\<rparr>)
           | (Inr img', lg) \<Rightarrow>
               (case Image_save img' output_path (files s) of
                  Inl e \<Rightarrow> (Inl e, s\<lparr>logged := logged s @ lg\<rparr>)
                | Inr fs \<Rightarrow> (Inr (), s\<lparr>files := fs, logged := logged s @ lg\<rparr>))))"

subsection \<open>The copy in \<open>venv/main.py\<close>\<close>

text \<open>
  \<open>venv/main.py\<close> holds an older copy of the function: the same statements with no \<open>try\<close>
  around \<open>Image.open\<close> and no logger.
\<close>

definition draw_shape_venv :: "library \<Rightarrow> shape \<Rightarrow> rgb image \<Rightarrow> exn + rgb image" where
  "draw_shape_venv lib shape img =
     (if shape_type shape = 13 then
        (case Image_open_blob lib (image_blob shape) of
           Inl e \<Rightarrow> Inl e
         | Inr pil_img \<Rightarrow>
             (let left = shape_left shape div 9525;
                  top = shape_top shape div 9525;
                  shape_width = shape_width shape div 9525;
                  shape_height = shape_height shape div 9525
              in case Image_resize lib pil_img (shape_width, shape_height) of
                   Inl e \<Rightarrow> Inl e
                 | Inr pil_img' \<Rightarrow> Image_paste img pil_img' (left, top)))
      else if has_text_frame shape then
        (let text = frame_text (paragraphs shape) []
         in if strip text = [] then Inr img
            else
              (let left = shape_left shape div 9525;
                   top = shape_top shape div 9525
               in ImageDraw_text blend_rgb lib img (left, top) text (0, 0, 0)))
      else Inr img)"

fun draw_shapes_venv :: "library \<Rightarrow> shape list \<Rightarrow> rgb image \<Rightarrow> exn + rgb image" where
  "draw_shapes_venv lib [] img = Inr img"
| "draw_shapes_venv lib (shape # rest) img =
     (case draw_shape_venv lib shape img of
        Inl e \<Rightarrow> Inl e
      | Inr img' \<Rightarrow> draw_shapes_venv lib rest img')"

definition draw_slide_content_venv ::
  "library \<Rightarrow> slide \<Rightarrow> int \<Rightarrow> int \<Rightarrow> string \<Rightarrow> session \<Rightarrow> (exn + unit) \<times> session" where
  "draw_slide_content_venv lib slide width height output_path s =
     (case Image_new (width, height) (255, 255, 255) of
        Inl e \<Rightarrow> (Inl e, s)
      | Inr img \<Rightarrow>
          (case draw_shapes_venv lib (shapes slide) img of
             Inl e \<Rightarrow> (Inl e, s)
           | Inr img' \<Rightarrow>
               (case Image_save img' output_path (files s) of
                  Inl e \<Rightarrow> (Inl e, s)
                | Inr fs \<Rightarrow> (Inr (), s\<lparr>files := fs\<rparr>))))"

section \<open>The overlay engine: \<open>overlay_comments\<close>\<close>

fun draw_comments :: "library \<Rightarrow> rgba image \<Rightarrow> int \<Rightarrow> string list \<Rightarrow> exn + rgba image" where
  \<comment> \<open>the loop over \<open>comments\<close>; the third argument is \<open>y_offset\<close>\<close>
  "draw_comments lib overlay y_offset [] = Inr overlay"
| "draw_comments lib overlay y_offset (comment # rest) =
     (case ImageDraw_text blend_rgba lib overlay (10, y_offset) comment (255, 0, 0, 255) of
        Inl e \<Rightarrow> Inl e
      | Inr overlay' \<Rightarrow> draw_comments lib overlay' (y_offset + 20) rest)"

definition overlay_comments ::
  "library \<Rightarrow> string \<Rightarrow> string list \<Rightarrow> (string \<rightharpoonup> rgb image) \<Rightarrow> exn + rgb image" where
  \<comment> \<open>the last argument is the disk that \<open>Image.open(slide_image_path)\<close> reads\<close>
  "overlay_comments lib slide_image_path comments fs =
     (case fs slide_image_path of
        None \<Rightarrow> Inl (IOError ''No such file or directory'')
      | Some base \<Rightarrow>
          (let img = convert_RGBA base
           in case Image_new (int (fst (im_size img)), int (snd (im_size img))) (255, 255, 255, 0) of
                Inl e \<Rightarrow> Inl e
              | Inr overlay \<Rightarrow>
                  (case draw_comments lib overlay 10 comments of
                     Inl e \<Rightarrow> Inl e
                   | Inr overlay' \<Rightarrow>
                       (case Image_alpha_composite img overlay' of
                          Inl e \<Rightarrow> Inl e
                        | Inr combined \<Rightarrow> Inr (convert_RGB combined)))))"

section \<open>The request handlers\<close>

record convert_response =
  slideCount :: int
  imageUrls :: "string list"

record comment_response =
  message :: string
  updatedImageUrl :: string

fun convert_slides ::
  "library \<Rightarrow> int \<Rightarrow> int \<Rightarrow> int \<Rightarrow> slide list \<Rightarrow> session \<Rightarrow> (exn + unit) \<times> session" where
  \<comment> \<open>\<open>for idx, slide in enumerate(prs.slides, start=1)\<close>; the fourth argument is \<open>idx\<close>\<close>
  "convert_slides lib width height idx [] s = (Inr (), s)"
| "convert_slides lib width height idx (slide # rest) s =
     (let orig_path = path_join ORIGINAL_DIR (slide_png idx)
      in case draw_slide_content lib slide width height orig_path s of
           (Inl e, s1) \<Rightarrow> (Inl e, s1)
         | (Inr u, s1) \<Rightarrow>
             (case shutil_copy orig_path (path_join OUTPUT_DIR (slide_png idx)) s1 of
                (Inl e, s2) \<Rightarrow> (Inl e, s2)
              | (Inr u', s2) \<Rightarrow> convert_slides lib width height (idx + 1) rest s2))"

text \<open>
  The body of the \<open>try\<close> in \<open>convert_ppt\<close>. The upload is a file name and its bytes. The
  temporary copy \<open>temp_<filename>\<close> is created first, and the handler is left there when the
  operating system refuses the path; once written, the copy is not an image and is not
  part of the session, and removing it again succeeds.
\<close>

definition convert_ppt_try ::
  "library \<Rightarrow> string \<Rightarrow> bytes \<Rightarrow> session \<Rightarrow> convert_response outcome \<times> session" where
  "convert_ppt_try lib filename contents s =
     (if \<not> endswith (lower filename) ''.pptx''
      then (JSONResponse ''Only .pptx files are supported.'' 400, s)
      else
        (let file_path = ''temp_'' @ filename
         in case open_wb lib file_path of
              Inl e \<Rightarrow> (Raise e, s)
            | Inr written \<Rightarrow>
                (let s1 = s\<lparr>files := fold clear_dir [OUTPUT_DIR, ORIGINAL_DIR] (files s)\<rparr>
                 in case Presentation lib contents of
                      Inl e \<Rightarrow> (Raise e, s1)
                    | Inr prs \<Rightarrow>
                        (let slide_width = slide_width prs div 9525;
                             slide_height = slide_height prs div 9525
                         in case convert_slides lib slide_width slide_height 1 (slides prs) s1 of
                              (Inl e, s2) \<Rightarrow> (Raise e, s2)
                            | (Inr u, s2) \<Rightarrow>
                                (let s3 = s2\<lparr>comments_store := Map.empty\<rparr>;
                                     slide_urls =
                                       map (\<lambda>i. ''/slides/slide_'' @ str_int (int i + 1) @ ''.png'')
                                           [0 ..< length (slides prs)]
                                 in (Return \<lparr>slideCount = int (length (slides prs)),
                                             imageUrls = slide_urls\<rparr>,
                                     s3))))))"

definition convert_ppt ::
  "library \<Rightarrow> string \<Rightarrow> bytes \<Rightarrow> session \<Rightarrow> convert_response outcome \<times> session" where
  \<comment> \<open>\<open>except Exception as e\<close>: log, then raise the 500\<close>
  "convert_ppt lib filename contents s =
     (case convert_ppt_try lib filename contents s of
        (Raise e, s') \<Rightarrow>
          (Raise (HTTPException 500 (InternalServerError e)),
           s'\<lparr>logged := logged s' @ [(ERROR, ''Error in convert_ppt: {}'', e)]\<rparr>)
      | (r, s') \<Rightarrow> (r, s'))"

definition setdefault_append :: "(int \<rightharpoonup> string list) \<Rightarrow> int \<Rightarrow> string \<Rightarrow> (int \<rightharpoonup> string list)" where
  \<comment> \<open>\<open>comments_store.setdefault(slide_number, []).append(comment)\<close>\<close>
  "setdefault_append store slide_number comment =
     store(slide_number \<mapsto> (case store slide_number of None \<Rightarrow> [] | Some cs \<Rightarrow> cs) @ [comment])"

definition subscript :: "(int \<rightharpoonup> string list) \<Rightarrow> int \<Rightarrow> exn + string list" where
  \<comment> \<open>\<open>comments_store[slide_number]\<close>\<close>
  "subscript store slide_number =
     (case store slide_number of None \<Rightarrow> Inl (Exception ''KeyError'') | Some cs \<Rightarrow> Inr cs)"

definition add_comment_try ::
  "library \<Rightarrow> int \<Rightarrow> string \<Rightarrow> session \<Rightarrow> comment_response outcome \<times> session" where
  \<comment> \<open>the body of the \<open>try\<close> in \<open>add_comment\<close>; without the \<open>try\<close> it is the whole handler of
      \<open>venv/main.py\<close>. \<open>updated_img\<close> has the size of the base image read from disk (no file on
      disk has a zero side), so it is written\<close>
  "add_comment_try lib slide_number comment s =
     (let orig_image_path = path_join ORIGINAL_DIR (slide_png slide_number)
      in if files s orig_image_path = None
         then (Raise (HTTPException 404 (Detail ''Slide not found'')), s)
         else
           (let s1 = s\<lparr>comments_store := setdefault_append (comments_store s) slide_number comment\<rparr>
            in case subscript (comments_store s1) slide_number of
                 Inl e \<Rightarrow> (Raise e, s1)
               | Inr comments \<Rightarrow>
                   (case overlay_comments lib orig_image_path comments (files s1) of
                      Inl e \<Rightarrow> (Raise e, s1)
                    | Inr updated_img \<Rightarrow>
                        (let updated_path = path_join OUTPUT_DIR (slide_png slide_number)
                         in (Return \<lparr>message = ''Comment added'',
                                     updatedImageUrl = ''/slides/'' @ slide_png slide_number\<rparr>,
                             s1\<lparr>files := (files s1)(updated_path \<mapsto> updated_img)\<rparr>)))))"

definition add_comment ::
  "library \<Rightarrow> int \<Rightarrow> string \<Rightarrow> session \<Rightarrow> comment_response outcome \<times> session" where
  \<comment> \<open>\<open>except Exception as e\<close>: log, then raise the 500\<close>
  "add_comment lib slide_number comment s =
     (case add_comment_try lib slide_number comment s of
        (Raise e, s') \<Rightarrow>
          (Raise (HTTPException 500 (InternalServerError e)),
           s'\<lparr>logged := logged s' @ [(ERROR, ''Error in add_comment: {}'', e)]\<rparr>)
      | (r, s') \<Rightarrow> (r, s'))"

definition add_comment_venv ::
  "library \<Rightarrow> int \<Rightarrow> string \<Rightarrow> session \<Rightarrow> comment_response outcome \<times> session" where
  \<comment> \<open>\<open>venv/main.py\<close>: the same statements with no \<open>try\<close> around them\<close>
  "add_comment_venv lib slide_number comment s = add_comment_try lib slide_number comment s"

definition get_comments :: "int \<Rightarrow> session \<Rightarrow> string list" where
  \<comment> \<open>\<open>comments_store.get(slide_number, [])\<close>\<close>
  "get_comments slide_number s =
     (case comments_store s slide_number of None \<Rightarrow> [] | Some cs \<Rightarrow> cs)"

section \<open>Derived notions\<close>

text \<open>
  Notions the properties below are stated with: the raster of one slide, the file names the
  extension check accepts, text shapes without visible text, and rounding toward minus
  infinity.
\<close>

definition rasterize :: "library \<Rightarrow> slide \<Rightarrow> int \<Rightarrow> int \<Rightarrow> exn + rgb image" where
  \<comment> \<open>the image that \<open>draw_slide_content\<close> saves for a slide, or the exception it raises\<close>
  "rasterize lib slide width height =
     (case Image_new (width, height) (255, 255, 255) of
        Inl e \<Rightarrow> Inl e
      | Inr img \<Rightarrow> fst (draw_shapes lib (shapes slide) img))"

definition pixel_of :: "exn + rgb image \<Rightarrow> int \<Rightarrow> int \<Rightarrow> rgb option" where
  \<comment> \<open>the pixel at \<open>(x, y)\<close> of a drawing result, if there is an image\<close>
  "pixel_of r x y = (case r of Inl e \<Rightarrow> None | Inr im \<Rightarrow> Some (im_data im x y))"

definition has_pptx_suffix_any_case :: "string \<Rightarrow> bool" where
  \<comment> \<open>the file name ends in a case variant of \<open>.pptx\<close>\<close>
  "has_pptx_suffix_any_case filename =
     (5 \<le> length filename \<and>
      list_all2 (\<lambda>c vs. c \<in> set vs) (drop (length filename - 5) filename)
        [''.'', ''pP'', ''pP'', ''tT'', ''xX''])"

definition whitespace_text_shape :: "shape \<Rightarrow> bool" where
  \<comment> \<open>a text shape all of whose runs are empty or whitespace\<close>
  "whitespace_text_shape shape =
     (shape_type shape \<noteq> 13 \<and> has_text_frame shape \<and>
      list_all (list_all (list_all isspace)) (paragraphs shape))"

fun is_IOError :: "exn \<Rightarrow> bool" where
  "is_IOError (IOError m) = True"
| "is_IOError e = False"

definition is_floor_px :: "int \<Rightarrow> int \<Rightarrow> bool" where
  \<comment> \<open>\<open>p\<close> is \<open>v / 9525\<close> rounded toward minus infinity\<close>
  "is_floor_px v p = (9525 * p \<le> v \<and> v < 9525 * p + 9525)"

subsection \<open>The unit conversion as the specification words it\<close>

definition truncating_px :: "int \<Rightarrow> int" where
  \<comment> \<open>the conversion in the specification's words: truncating integer division by 9525\<close>
  "truncating_px v = v sdiv 9525"

definition paint_picture_truncating ::
  "library \<Rightarrow> shape \<Rightarrow> rgb image \<Rightarrow> image_file \<Rightarrow> exn + rgb image" where
  \<comment> \<open>painting a decoded picture with its four fields truncated, as the specification words it\<close>
  "paint_picture_truncating lib shape img pil_img =
     (case Image_resize lib pil_img
             (truncating_px (shape_width shape), truncating_px (shape_height shape)) of
        Inl e \<Rightarrow> Inl e
      | Inr pil_img' \<Rightarrow>
          Image_paste img pil_img'
            (truncating_px (shape_left shape), truncating_px (shape_top shape)))"

section \<open>Example inputs\<close>

definition empty_session :: session where
  "empty_session = \<lparr>comments_store = Map.empty, files = Map.empty, logged = []\<rparr>"

definition example_presentation :: presentation where
  "example_presentation = \<lparr>slide_width = 9144000, slide_height = 6858000, slides = []\<rparr>"

definition example_library :: library where
  \<comment> \<open>every payload is rejected by \<open>Image.open\<close>, the filter paints black, the font has no
      ink, the parser always yields the empty presentation, and a temporary file is created
      unless its name has a path separator\<close>
  "example_library =
     \<lparr>Image_open_blob = \<lambda>blob. Inl (IOError ''cannot identify image file''),
      resample = \<lambda>im sz. Inr (\<lambda>x y. (0, 0, 0)),
      getmask = \<lambda>text. Inr (\<lambda>x y. 0),
      Presentation = \<lambda>contents. Inr example_presentation,
      open_wb = \<lambda>path. if CHR ''/'' \<in> set path then Inl (IOError ''No such file or directory'')
                        else Inr ()\<rparr>"

definition white_2x2 :: "rgb image" where
  "white_2x2 = \<lparr>im_size = (2, 2), im_data = \<lambda>x y. (255, 255, 255)\<rparr>"

definition white_2x1 :: "rgb image" where
  "white_2x1 = \<lparr>im_size = (2, 1), im_data = \<lambda>x y. (255, 255, 255)\<rparr>"

definition white_30x50 :: "rgb image" where
  "white_30x50 = \<lparr>im_size = (30, 50), im_data = \<lambda>x y. (255, 255, 255)\<rparr>"

definition two_pixels :: "rgb image" where
  \<comment> \<open>a decoded picture of two pixels side by side\<close>
  "two_pixels = \<lparr>im_size = (2, 1), im_data = \<lambda>x y. if x = 0 then (10, 20, 30) else (40, 50, 60)\<rparr>"

definition blank_text_shape :: shape where
  \<comment> \<open>a text box with four paragraphs of spaces, tabs, a newline and a no-break space\<close>
  "blank_text_shape =
     \<lparr>shape_type = 17, image_blob = [], shape_left = 914400, shape_top = 457200,
      shape_width = 1828800, shape_height = 914400, has_text_frame = True,
      paragraphs = [[''  '', [CHR 0x09]], [], [''''], [[CHR 0x0A, CHR 0xA0]]]\<rparr>"

definition hello_shape :: shape where
  \<comment> \<open>a text box reading Hello at the top left corner\<close>
  "hello_shape =
     \<lparr>shape_type = 17, image_blob = [], shape_left = 0, shape_top = 0,
      shape_width = 1828800, shape_height = 457200, has_text_frame = True,
      paragraphs = [[''Hello'']]\<rparr>"

definition picture_shape :: shape where
  \<comment> \<open>a picture two pixels wide and one high, placed at (96, 48)\<close>
  "picture_shape =
     \<lparr>shape_type = 13, image_blob = ''PNG'', shape_left = 914400, shape_top = 457200,
      shape_width = 19050, shape_height = 9525, has_text_frame = False, paragraphs = []\<rparr>"

definition offset_picture :: shape where
  \<comment> \<open>a picture whose left edge lies half a pixel left of the slide\<close>
  "offset_picture =
     \<lparr>shape_type = 13, image_blob = ''PNG'', shape_left = - 4762, shape_top = 0,
      shape_width = 19050, shape_height = 9525, has_text_frame = False, paragraphs = []\<rparr>"

definition hairline_picture :: shape where
  \<comment> \<open>a picture half a pixel wide\<close>
  "hairline_picture =
     \<lparr>shape_type = 13, image_blob = ''PNG'', shape_left = 914400, shape_top = 457200,
      shape_width = 4762, shape_height = 914400, has_text_frame = False, paragraphs = []\<rparr>"

definition two_slide_presentation :: presentation where
  "two_slide_presentation =
     \<lparr>slide_width = 9144000, slide_height = 6858000,
      slides = [\<lparr>shapes = [hello_shape]\<rparr>, \<lparr>shapes = [picture_shape]\<rparr>]\<rparr>"

definition hairline_presentation :: presentation where
  "hairline_presentation =
     \<lparr>slide_width = 9144000, slide_height = 6858000,
      slides = [\<lparr>shapes = [hairline_picture, hello_shape]\<rparr>]\<rparr>"

definition demo_library :: library where
  \<comment> \<open>every payload opens, and decodes to \<open>two_pixels\<close> unless it is the truncated one;
      resizing takes the nearest source pixel; a text inks the one pixel at its anchor; the
      parser yields \<open>two_slide_presentation\<close>; a temporary file is
      created unless its name has a path separator\<close>
  "demo_library =
     \<lparr>Image_open_blob = \<lambda>blob. if blob = ''truncated PNG''
                               then Inr (ImageFile (Inl (IOError ''image file is truncated'')))
                               else Inr (ImageFile (Inr two_pixels)),
      resample = \<lambda>im sz. Inr (\<lambda>x y. im_data im (x * int (fst (im_size im)) div fst sz)
                                                  (y * int (snd (im_size im)) div snd sz)),
      getmask = \<lambda>text. Inr (\<lambda>x y. if x = 0 \<and> y = 0 then 255 else 0),
      Presentation = \<lambda>contents. Inr two_slide_presentation,
      open_wb = \<lambda>path. if CHR ''/'' \<in> set path then Inl (IOError ''No such file or directory'')
                        else Inr ()\<rparr>"

definition truncated_picture :: shape where
  \<comment> \<open>a picture whose payload opens but is cut off within its pixel data\<close>
  "truncated_picture =
     \<lparr>shape_type = 13, image_blob = ''truncated PNG'', shape_left = 914400, shape_top = 457200,
      shape_width = 19050, shape_height = 9525, has_text_frame = False, paragraphs = []\<rparr>"

definition soft_font_library :: library where
  \<comment> \<open>as \<open>demo_library\<close>, with a font that covers the pixel at the anchor to 137 of 255\<close>
  "soft_font_library = demo_library\<lparr>getmask := \<lambda>text. Inr (\<lambda>x y. if x = 0 \<and> y = 0 then 137 else 0)\<rparr>"

definition hairline_library :: library where
  "hairline_library = demo_library\<lparr>Presentation := \<lambda>contents. Inr hairline_presentation\<rparr>"

definition served_session :: session where
  \<comment> \<open>one white base image for slide 1, and some other image being served for it\<close>
  "served_session =
     \<lparr>comments_store = Map.empty,
      files = [''original_slides/slide_1.png'' \<mapsto> white_30x50, ''slides/slide_1.png'' \<mapsto> white_2x2],
      logged = []\<rparr>"

definition commented_session :: session where
  \<comment> \<open>a session left by an earlier conversion: a comment on slide 1, images of a slide 7\<close>
  "commented_session =
     \<lparr>comments_store = [1 \<mapsto> [''Looks good'']],
      files = [''original_slides/slide_7.png'' \<mapsto> white_2x2, ''slides/slide_7.png'' \<mapsto> white_2x2],
      logged = []\<rparr>"

section \<open>Strings: facts\<close>

lemma of_char_lt: "(of_char c :: nat) < 256"
  by (cases c) simp

lemma char_eq_of_char: "c = d \<longleftrightarrow> (of_char c :: nat) = of_char d"
  by (metis char_of_char)

lemma of_char_lower_char:
  "(of_char (lower_char c) :: nat) =
     (if (65 \<le> (of_char c :: nat) \<and> (of_char c :: nat) \<le> 90) \<or>
         (192 \<le> (of_char c :: nat) \<and> (of_char c :: nat) \<le> 222 \<and> (of_char c :: nat) \<noteq> 215)
      then of_char c + 32 else of_char c)"
  using of_char_lt[of c] by (simp add: lower_char_def Let_def)

lemma lower_char_eq_iff:
  "lower_char c = d \<longleftrightarrow>
     (if (65 \<le> (of_char c :: nat) \<and> (of_char c :: nat) \<le> 90) \<or>
         (192 \<le> (of_char c :: nat) \<and> (of_char c :: nat) \<le> 222 \<and> (of_char c :: nat) \<noteq> 215)
      then of_char c + 32 else of_char c) = (of_char d :: nat)"
  by (subst char_eq_of_char) (simp only: of_char_lower_char)

lemma lower_char_dot: "lower_char c = CHR ''.'' \<longleftrightarrow> c = CHR ''.''"
  unfolding lower_char_eq_iff char_eq_of_char[of c] by (simp split: if_splits)

lemma lower_char_p: "lower_char c = CHR ''p'' \<longleftrightarrow> c = CHR ''p'' \<or> c = CHR ''P''"
  unfolding lower_char_eq_iff char_eq_of_char[of c] by (simp split: if_splits) arith

lemma lower_char_t: "lower_char c = CHR ''t'' \<longleftrightarrow> c = CHR ''t'' \<or> c = CHR ''T''"
  unfolding lower_char_eq_iff char_eq_of_char[of c] by (simp split: if_splits) arith

lemma lower_char_x: "lower_char c = CHR ''x'' \<longleftrightarrow> c = CHR ''x'' \<or> c = CHR ''X''"
  unfolding lower_char_eq_iff char_eq_of_char[of c] by (simp split: if_splits) arith

lemma length_five: "length t = 5 \<Longrightarrow> \<exists>a b c d e. t = [a, b, c, d, e]"
  by (auto simp: length_Suc_conv eval_nat_numeral)

lemma endswith_lower_pptx:
  "endswith (lower filename) ''.pptx'' \<longleftrightarrow> has_pptx_suffix_any_case filename"
proof (cases "5 \<le> length filename")
  case False
  then show ?thesis by (simp add: endswith_def lower_def has_pptx_suffix_any_case_def)
next
  case True
  then have "length (drop (length filename - 5) filename) = 5" by simp
  then obtain a b c d e where t: "drop (length filename - 5) filename = [a, b, c, d, e]"
    using length_five by blast
  have "endswith (lower filename) ''.pptx'' \<longleftrightarrow> map lower_char [a, b, c, d, e] = ''.pptx''"
  proof -
    have len: "length ''.pptx'' = 5" by simp
    show ?thesis
      unfolding endswith_def lower_def length_map len drop_map t using True by simp
  qed
  also have "\<dots> \<longleftrightarrow> has_pptx_suffix_any_case filename"
    using True
    by (simp add: has_pptx_suffix_any_case_def t lower_char_dot lower_char_p lower_char_t lower_char_x)
  finally show ?thesis .
qed

section \<open>The extension check of Convert\<close>

lemma convert_ppt_status: "status_code (fst (convert_ppt lib filename contents s)) = 400 \<longleftrightarrow>
    \<not> endswith (lower filename) ''.pptx''"
  by (simp add: convert_ppt_def convert_ppt_try_def Let_def
        split: sum.splits prod.splits outcome.splits)

text \<open>
  C10. The file name is lowercased before the \<open>.pptx\<close> suffix test: when the name ends in any
  case variant of \<open>.pptx\<close> the answer is never the 400 rejection, and when it does not,
  Convert answers 400 with the rejection message and the session is exactly as before.
\<close>

theorem convert_ppt_extension_check:
  "(has_pptx_suffix_any_case filename \<longrightarrow>
      status_code (fst (convert_ppt lib filename contents s)) \<noteq> 400) \<and>
   (\<not> has_pptx_suffix_any_case filename \<longrightarrow>
      convert_ppt lib filename contents s =
        (JSONResponse ''Only .pptx files are supported.'' 400, s))"
  by (simp add: convert_ppt_status endswith_lower_pptx)
     (simp add: convert_ppt_def convert_ppt_try_def endswith_lower_pptx)

theorem convert_ppt_extension_check_witness:
  "has_pptx_suffix_any_case ''Deck.PPTX'' \<and>
   status_code (fst (convert_ppt example_library ''Deck.PPTX'' [] empty_session)) \<noteq> 400 \<and>
   \<not> has_pptx_suffix_any_case ''notes.txt'' \<and>
   convert_ppt example_library ''notes.txt'' [] empty_session =
     (JSONResponse ''Only .pptx files are supported.'' 400, empty_session)"
  using convert_ppt_extension_check [of "''Deck.PPTX''" example_library "[]" empty_session]
        convert_ppt_extension_check [of "''notes.txt''" example_library "[]" empty_session]
  by (simp add: has_pptx_suffix_any_case_def)

section \<open>Add comment on a slide without a base image\<close>

lemma add_comment_no_base_image:
  "files s (path_join ORIGINAL_DIR (slide_png slide_number)) = None \<Longrightarrow>
   add_comment lib slide_number comment s =
     (Raise (HTTPException 500 (InternalServerError (HTTPException 404 (Detail ''Slide not found'')))),
      s\<lparr>logged := logged s @
            [(ERROR, ''Error in add_comment: {}'', HTTPException 404 (Detail ''Slide not found''))]\<rparr>)"
  by (simp add: add_comment_def add_comment_try_def)

lemma add_comment_venv_no_base_image:
  "files s (path_join ORIGINAL_DIR (slide_png slide_number)) = None \<Longrightarrow>
   add_comment_venv lib slide_number comment s =
     (Raise (HTTPException 404 (Detail ''Slide not found'')), s)"
  by (simp add: add_comment_venv_def add_comment_try_def)

text \<open>
  C3. Slide 99 has no base image. The \<open>HTTPException(404)\<close> is raised inside the \<open>try\<close>,
  \<open>except Exception\<close> catches it and raises the 500 in its place: the caller is answered 500.
  The comment store and the image files are as before. The handler of \<open>venv/main.py\<close>, which
  has no \<open>try\<close>, answers 404 on the same input.
\<close>

theorem add_comment_missing_slide_answers_500:
  "status_code (fst (add_comment example_library 99 ''x'' empty_session)) = 500 \<and>
   comments_store (snd (add_comment example_library 99 ''x'' empty_session)) = Map.empty \<and>
   files (snd (add_comment example_library 99 ''x'' empty_session)) = Map.empty \<and>
   status_code (fst (add_comment_venv example_library 99 ''x'' empty_session)) = 404"
  by (simp add: add_comment_def add_comment_venv_def add_comment_try_def empty_session_def)

section \<open>Overlay of an empty comment log\<close>

lemma alpha_composite_px_transparent [simp]:
  "alpha_composite_px d (sr, sg, sb, 0) = d"
  by (cases d) simp

text \<open>
  C8. With an empty comment log the overlay succeeds for every stored base image and
  returns that image, pixel for pixel: the fully transparent layer leaves every pixel of
  the base as it was, and adding then dropping the alpha channel changes nothing.
\<close>

theorem overlay_comments_empty_log:
  "fs slide_image_path = Some B \<Longrightarrow> overlay_comments lib slide_image_path [] fs = Inr B"
  by (simp add: overlay_comments_def Image_new_def Image_alpha_composite_def convert_RGBA_def
        convert_RGB_def case_prod_beta)

theorem overlay_comments_empty_log_witness:
  "[''original_slides/slide_1.png'' \<mapsto> white_2x2] ''original_slides/slide_1.png'' = Some white_2x2 \<and>
   overlay_comments example_library ''original_slides/slide_1.png'' []
      [''original_slides/slide_1.png'' \<mapsto> white_2x2] = Inr white_2x2"
  using overlay_comments_empty_log
          [of "[''original_slides/slide_1.png'' \<mapsto> white_2x2]" "''original_slides/slide_1.png''"
              white_2x2 example_library]
  by simp

section \<open>Text shapes without visible text\<close>

lemma strip_whitespace: "list_all isspace t \<Longrightarrow> strip t = []"
proof -
  assume "list_all isspace t"
  then have D: "dropWhile isspace t = []" by (simp add: list_all_iff)
  show ?thesis unfolding strip_def D by simp
qed

lemma concat_whitespace: "list_all (list_all isspace) runs \<Longrightarrow> list_all isspace (concat runs)"
  by (induction runs) (auto simp: list_all_iff)

lemma frame_text_whitespace:
  "list_all (list_all (list_all isspace)) ps \<Longrightarrow> frame_text ps acc = acc"
  by (induction ps arbitrary: acc) (simp_all add: Let_def strip_whitespace concat_whitespace)

lemma draw_shape_whitespace:
  "whitespace_text_shape shape \<Longrightarrow> draw_shape lib shape img = (Inr img, [])"
  by (simp add: whitespace_text_shape_def draw_shape_def frame_text_whitespace strip_def)

lemma draw_shapes_whitespace:
  "list_all whitespace_text_shape shps \<Longrightarrow> draw_shapes lib shps img = (Inr img, [])"
  by (induction shps) (simp_all add: draw_shape_whitespace)

lemma rasterize_whitespace:
  "list_all whitespace_text_shape (shapes slide) \<Longrightarrow>
   rasterize lib slide width height = Image_new (width, height) (255, 255, 255)"
  by (simp add: rasterize_def draw_shapes_whitespace split: sum.splits)

text \<open>
  C6. A slide whose shapes are all text shapes with only empty or whitespace runs is
  rasterized exactly as the slide with no shapes, with the same outcome and the same
  effect on the session; whenever an image is written for it, that image is the solid
  white canvas of the requested size, with no pixel drawn.
\<close>

theorem whitespace_text_shapes_draw_nothing:
  "list_all whitespace_text_shape (shapes slide) \<Longrightarrow>
   draw_slide_content lib slide width height output_path s =
     draw_slide_content lib \<lparr>shapes = []\<rparr> width height output_path s \<and>
   rasterize lib slide width height = rasterize lib \<lparr>shapes = []\<rparr> width height \<and>
   (fst (draw_slide_content lib slide width height output_path s) = Inr () \<longrightarrow>
      snd (draw_slide_content lib slide width height output_path s) =
        s\<lparr>files := (files s)(output_path \<mapsto>
              \<lparr>im_size = (nat width, nat height), im_data = \<lambda>x y. (255, 255, 255)\<rparr>)\<rparr>)"
  by (simp add: draw_slide_content_def draw_shapes_whitespace rasterize_whitespace Image_new_def
        Image_save_def split: sum.splits)

theorem whitespace_text_shapes_draw_nothing_witness:
  "list_all whitespace_text_shape (shapes \<lparr>shapes = [blank_text_shape, blank_text_shape]\<rparr>) \<and>
   draw_slide_content example_library \<lparr>shapes = [blank_text_shape, blank_text_shape]\<rparr> 3 2
       ''original_slides/slide_1.png'' empty_session =
     draw_slide_content example_library \<lparr>shapes = []\<rparr> 3 2 ''original_slides/slide_1.png'' empty_session \<and>
   fst (draw_slide_content example_library \<lparr>shapes = [blank_text_shape, blank_text_shape]\<rparr> 3 2
       ''original_slides/slide_1.png'' empty_session) = Inr () \<and>
   snd (draw_slide_content example_library \<lparr>shapes = [blank_text_shape, blank_text_shape]\<rparr> 3 2
       ''original_slides/slide_1.png'' empty_session) =
     empty_session\<lparr>files := (files empty_session)(''original_slides/slide_1.png'' \<mapsto>
                   \<lparr>im_size = (nat 3, nat 2), im_data = \<lambda>x y. (255, 255, 255)\<rparr>)\<rparr>"
proof -
  have h: "list_all whitespace_text_shape (shapes \<lparr>shapes = [blank_text_shape, blank_text_shape]\<rparr>)"
    by (simp add: whitespace_text_shape_def blank_text_shape_def isspace_def)
  note T = whitespace_text_shapes_draw_nothing
             [OF h, of example_library 3 2 "''original_slides/slide_1.png''" empty_session]
  from T have e: "draw_slide_content example_library \<lparr>shapes = [blank_text_shape, blank_text_shape]\<rparr> 3 2
       ''original_slides/slide_1.png'' empty_session =
     draw_slide_content example_library \<lparr>shapes = []\<rparr> 3 2 ''original_slides/slide_1.png'' empty_session"
    by blast
  have ok: "fst (draw_slide_content example_library \<lparr>shapes = []\<rparr> 3 2
       ''original_slides/slide_1.png'' empty_session) = Inr ()"
    by (simp add: draw_slide_content_def Image_new_def Image_save_def)
  with e have ok': "fst (draw_slide_content example_library \<lparr>shapes = [blank_text_shape, blank_text_shape]\<rparr> 3 2
       ''original_slides/slide_1.png'' empty_session) = Inr ()" by simp
  with T have "snd (draw_slide_content example_library \<lparr>shapes = [blank_text_shape, blank_text_shape]\<rparr> 3 2
       ''original_slides/slide_1.png'' empty_session) =
     empty_session\<lparr>files := (files empty_session)(''original_slides/slide_1.png'' \<mapsto>
                   \<lparr>im_size = (nat 3, nat 2), im_data = \<lambda>x y. (255, 255, 255)\<rparr>)\<rparr>" by blast
  with h e ok' show ?thesis by blast
qed

section \<open>The overlay as a function of base image and comment log\<close>

lemmas path_eval = path_join_def ORIGINAL_DIR_def OUTPUT_DIR_def slide_png_def str_int_def
  str_nat.simps digit_char_def

lemma original_path_neq_output_path:
  "path_join ORIGINAL_DIR a \<noteq> path_join OUTPUT_DIR b"
  by (simp add: path_join_def ORIGINAL_DIR_def OUTPUT_DIR_def)

lemma overlay_comments_reads_base:
  "fs p = fs' p \<Longrightarrow> overlay_comments lib p cs fs = overlay_comments lib p cs fs'"
  by (simp add: overlay_comments_def)

lemma add_comment_try_present:
  assumes "files s (path_join ORIGINAL_DIR (slide_png n)) = Some B"
  shows "add_comment_try lib n c s =
     (case overlay_comments lib (path_join ORIGINAL_DIR (slide_png n)) (get_comments n s @ [c]) (files s) of
        Inl e \<Rightarrow> (Raise e, s\<lparr>comments_store := (comments_store s)(n \<mapsto> get_comments n s @ [c])\<rparr>)
      | Inr img \<Rightarrow>
          (Return \<lparr>message = ''Comment added'', updatedImageUrl = ''/slides/'' @ slide_png n\<rparr>,
           s\<lparr>comments_store := (comments_store s)(n \<mapsto> get_comments n s @ [c]),
             files := (files s)(path_join OUTPUT_DIR (slide_png n) \<mapsto> img)\<rparr>))"
  using assms
  by (simp add: add_comment_try_def setdefault_append_def subscript_def get_comments_def Let_def
        split: sum.splits)

lemma add_comment_present:
  assumes "files s (path_join ORIGINAL_DIR (slide_png n)) = Some B"
  shows "snd (add_comment lib n c s) =
     (case overlay_comments lib (path_join ORIGINAL_DIR (slide_png n)) (get_comments n s @ [c]) (files s) of
        Inl e \<Rightarrow> s\<lparr>comments_store := (comments_store s)(n \<mapsto> get_comments n s @ [c]),
                   logged := logged s @ [(ERROR, ''Error in add_comment: {}'', e)]\<rparr>
      | Inr img \<Rightarrow>
           s\<lparr>comments_store := (comments_store s)(n \<mapsto> get_comments n s @ [c]),
             files := (files s)(path_join OUTPUT_DIR (slide_png n) \<mapsto> img)\<rparr>)"
  by (simp add: add_comment_def add_comment_try_present[OF assms] split: sum.splits)

lemma add_comment_files:
  assumes "files s (path_join ORIGINAL_DIR (slide_png n)) = Some B"
  shows "files (snd (add_comment lib n c s)) =
     (case overlay_comments lib (path_join ORIGINAL_DIR (slide_png n)) (get_comments n s @ [c]) (files s) of
        Inl e \<Rightarrow> files s
      | Inr img \<Rightarrow> (files s)(path_join OUTPUT_DIR (slide_png n) \<mapsto> img))"
  by (simp add: add_comment_present[OF assms] split: sum.splits)

lemma add_comment_get_comments:
  assumes "files s (path_join ORIGINAL_DIR (slide_png n)) = Some B"
  shows "get_comments n (snd (add_comment lib n c s)) = get_comments n s @ [c]"
  by (simp add: add_comment_present[OF assms] get_comments_def split: sum.splits)

lemma add_comment_keeps_original:
  "files (snd (add_comment lib n c s)) (path_join ORIGINAL_DIR a) = files s (path_join ORIGINAL_DIR a)"
proof (cases "files s (path_join ORIGINAL_DIR (slide_png n))")
  case None
  then show ?thesis by (simp add: add_comment_no_base_image)
next
  case (Some B)
  show ?thesis
    by (simp add: add_comment_files[OF Some] original_path_neq_output_path split: sum.splits)
qed

text \<open>
  C1. The overlay is a function of the stored base image and the comment list alone: on any
  disk holding base image \<open>B\<close> for the slide it returns what it returns on the disk holding
  only \<open>B\<close>, whatever is being served. After two comments are added one after the other, the
  log is the old log followed by both, and the served image is the overlay of the base with
  that whole log computed directly (when that overlay raises, the served image is the one
  left by the first call).
\<close>

theorem overlay_depends_on_base_and_log_only:
  assumes "files s (path_join ORIGINAL_DIR (slide_png n)) = Some B"
  shows "(\<forall>cs. overlay_comments lib (path_join ORIGINAL_DIR (slide_png n)) cs (files s) =
            overlay_comments lib (path_join ORIGINAL_DIR (slide_png n)) cs
              [path_join ORIGINAL_DIR (slide_png n) \<mapsto> B]) \<and>
         get_comments n (snd (add_comment lib n c2 (snd (add_comment lib n c1 s)))) =
           get_comments n s @ [c1, c2] \<and>
         (case overlay_comments lib (path_join ORIGINAL_DIR (slide_png n)) (get_comments n s @ [c1, c2])
                 [path_join ORIGINAL_DIR (slide_png n) \<mapsto> B] of
            Inr img \<Rightarrow>
              files (snd (add_comment lib n c2 (snd (add_comment lib n c1 s))))
                (path_join OUTPUT_DIR (slide_png n)) = Some img
          | Inl e \<Rightarrow>
              files (snd (add_comment lib n c2 (snd (add_comment lib n c1 s))))
                (path_join OUTPUT_DIR (slide_png n)) =
              files (snd (add_comment lib n c1 s)) (path_join OUTPUT_DIR (slide_png n)))"
proof -
  let ?orig = "path_join ORIGINAL_DIR (slide_png n)"
  let ?s1 = "snd (add_comment lib n c1 s)"
  have pure: "overlay_comments lib ?orig cs (files t) = overlay_comments lib ?orig cs [?orig \<mapsto> B]"
    if "files t ?orig = Some B" for cs and t :: session
    using that by (intro overlay_comments_reads_base) simp
  have base1: "files ?s1 ?orig = Some B"
    using assms by (simp add: add_comment_keeps_original)
  have log1: "get_comments n ?s1 = get_comments n s @ [c1]"
    by (rule add_comment_get_comments[OF assms])
  have A: "\<forall>cs. overlay_comments lib ?orig cs (files s) = overlay_comments lib ?orig cs [?orig \<mapsto> B]"
    using pure[OF assms] by blast
  have B: "get_comments n (snd (add_comment lib n c2 ?s1)) = get_comments n s @ [c1, c2]"
    by (simp add: add_comment_get_comments[OF base1] log1)
  have C: "files (snd (add_comment lib n c2 ?s1)) =
     (case overlay_comments lib ?orig (get_comments n s @ [c1, c2]) [?orig \<mapsto> B] of
        Inl e \<Rightarrow> files ?s1
      | Inr img \<Rightarrow> (files ?s1)(path_join OUTPUT_DIR (slide_png n) \<mapsto> img))"
    by (simp add: add_comment_files[OF base1] log1 pure[OF base1])
  show ?thesis
    using A B by (simp add: C split: sum.splits)
qed


lemmas overlay_eval = overlay_comments_def Image_new_def convert_RGBA_def convert_RGB_def
  ImageDraw_text_def Image_alpha_composite_def inside_def BLEND_def DIV255_def SHIFTFORDIV255_def
  Let_def

lemma served_session_base:
  "files served_session (path_join ORIGINAL_DIR (slide_png 1)) = Some white_30x50"
  by (simp add: served_session_def path_eval)

theorem overlay_depends_on_base_and_log_only_witness:
  "files served_session (path_join ORIGINAL_DIR (slide_png 1)) = Some white_30x50 \<and>
   get_comments 1 (snd (add_comment demo_library 1 ''Fix title''
                     (snd (add_comment demo_library 1 ''Looks good'' served_session)))) =
     [''Looks good'', ''Fix title''] \<and>
   map_option (\<lambda>im. (im_data im 10 10, im_data im 10 30, im_data im 11 10))
     (files (snd (add_comment demo_library 1 ''Fix title''
                    (snd (add_comment demo_library 1 ''Looks good'' served_session))))
        (path_join OUTPUT_DIR (slide_png 1))) =
     Some ((255, 0, 0), (255, 0, 0), (255, 255, 255))"
proof -
  let ?orig = "path_join ORIGINAL_DIR (slide_png 1)"
  let ?s2 = "snd (add_comment demo_library 1 ''Fix title''
                     (snd (add_comment demo_library 1 ''Looks good'' served_session)))"
  note T = overlay_depends_on_base_and_log_only
             [OF served_session_base, of demo_library "''Fix title''" "''Looks good''"]
  have g: "get_comments 1 served_session = []"
    by (simp add: get_comments_def served_session_def)
  have "\<exists>img. overlay_comments demo_library ?orig [''Looks good'', ''Fix title''] [?orig \<mapsto> white_30x50] =
            Inr img \<and>
          (im_data img 10 10, im_data img 10 30, im_data img 11 10) =
            ((255, 0, 0), (255, 0, 0), (255, 255, 255))"
    by (simp add: overlay_eval demo_library_def white_30x50_def)
  then obtain img where
    ov: "overlay_comments demo_library ?orig [''Looks good'', ''Fix title''] [?orig \<mapsto> white_30x50] = Inr img"
    and px: "(im_data img 10 10, im_data img 10 30, im_data img 11 10) =
            ((255, 0, 0), (255, 0, 0), (255, 255, 255))" by blast
  from T have c: "get_comments 1 ?s2 = [''Looks good'', ''Fix title'']" by (simp add: g)
  from T have "files ?s2 (path_join OUTPUT_DIR (slide_png 1)) = Some img" by (simp add: g ov)
  with px c served_session_base show ?thesis by simp
qed

text \<open>
  C9. Adding a comment to a slide that has a base image changes no file other than the
  served image of that slide: every base image, and this slide's in particular, is the
  same before and after. When the overlay of the base with the extended log succeeds its
  result becomes the served image; when it raises, no file changes at all.
\<close>

theorem add_comment_leaves_base_images:
  assumes "files s (path_join ORIGINAL_DIR (slide_png n)) = Some B"
  shows "(\<forall>p. p \<noteq> path_join OUTPUT_DIR (slide_png n) \<longrightarrow>
              files (snd (add_comment lib n c s)) p = files s p) \<and>
         files (snd (add_comment lib n c s)) (path_join ORIGINAL_DIR (slide_png n)) = Some B \<and>
         (case overlay_comments lib (path_join ORIGINAL_DIR (slide_png n)) (get_comments n s @ [c])
                 [path_join ORIGINAL_DIR (slide_png n) \<mapsto> B] of
            Inr img \<Rightarrow>
              files (snd (add_comment lib n c s)) (path_join OUTPUT_DIR (slide_png n)) = Some img
          | Inl e \<Rightarrow> files (snd (add_comment lib n c s)) = files s)"
proof -
  let ?orig = "path_join ORIGINAL_DIR (slide_png n)"
  have pure: "overlay_comments lib ?orig cs (files s) = overlay_comments lib ?orig cs [?orig \<mapsto> B]" for cs
    using assms by (intro overlay_comments_reads_base) simp
  show ?thesis
    using assms
    by (simp add: add_comment_files[OF assms] pure original_path_neq_output_path split: sum.splits)
qed

theorem add_comment_leaves_base_images_witness:
  "files served_session (path_join ORIGINAL_DIR (slide_png 1)) = Some white_30x50 \<and>
   ''original_slides/slide_1.png'' \<noteq> path_join OUTPUT_DIR (slide_png 1) \<and>
   files (snd (add_comment demo_library 1 ''Looks good'' served_session))
      ''original_slides/slide_1.png'' = Some white_30x50 \<and>
   files served_session (path_join OUTPUT_DIR (slide_png 1)) = Some white_2x2 \<and>
   map_option (\<lambda>im. (im_size im, im_data im 10 10, im_data im 11 10))
     (files (snd (add_comment demo_library 1 ''Looks good'' served_session))
        (path_join OUTPUT_DIR (slide_png 1))) =
     Some ((30, 50), (255, 0, 0), (255, 255, 255))"
proof -
  let ?orig = "path_join ORIGINAL_DIR (slide_png 1)"
  let ?s1 = "snd (add_comment demo_library 1 ''Looks good'' served_session)"
  note T = add_comment_leaves_base_images [OF served_session_base, of demo_library "''Looks good''"]
  have g: "get_comments 1 served_session = []"
    by (simp add: get_comments_def served_session_def)
  have d: "''original_slides/slide_1.png'' \<noteq> path_join OUTPUT_DIR (slide_png 1)"
    by (simp add: path_eval)
  have o: "files served_session (path_join OUTPUT_DIR (slide_png 1)) = Some white_2x2"
    by (simp add: served_session_def path_eval)
  have "\<exists>img. overlay_comments demo_library ?orig [''Looks good''] [?orig \<mapsto> white_30x50] = Inr img \<and>
          (im_size img, im_data img 10 10, im_data img 11 10) = ((30, 50), (255, 0, 0), (255, 255, 255))"
    by (simp add: overlay_eval demo_library_def white_30x50_def)
  then obtain img where
    ov: "overlay_comments demo_library ?orig [''Looks good''] [?orig \<mapsto> white_30x50] = Inr img"
    and px: "(im_size img, im_data img 10 10, im_data img 11 10) =
               ((30, 50), (255, 0, 0), (255, 255, 255))" by blast
  from T d have b: "files ?s1 ''original_slides/slide_1.png'' = files served_session ''original_slides/slide_1.png''"
    by blast
  have b': "files served_session ''original_slides/slide_1.png'' = Some white_30x50"
    by (simp add: served_session_def)
  from T have "files ?s1 (path_join OUTPUT_DIR (slide_png 1)) = Some img" by (simp add: g ov)
  with px b b' d o served_session_base show ?thesis by simp
qed

section \<open>File names of the slides\<close>

lemma digit_char_inj: "a < 10 \<Longrightarrow> b < 10 \<Longrightarrow> digit_char a = digit_char b \<Longrightarrow> a = b"
proof -
  assume a: "a < 10" and b: "b < 10" and e: "digit_char a = digit_char b"
  have d: "distinct ''0123456789''" by simp
  have "a < length ''0123456789''" "b < length ''0123456789''" using a b by simp_all
  with d e show "a = b" unfolding digit_char_def by (simp only: nth_eq_iff_index_eq)
qed

lemma str_nat_nonempty: "str_nat n \<noteq> []"
  by (subst str_nat.simps) simp

lemma str_nat_inj: "str_nat n = str_nat m \<Longrightarrow> n = m"
proof (induction n arbitrary: m rule: str_nat.induct)
  case (1 n)
  show ?case
  proof (cases "n < 10")
    case True
    then have n: "str_nat n = [digit_char n]" by (subst str_nat.simps) simp
    show ?thesis
    proof (cases "m < 10")
      case mt: True
      then have "str_nat m = [digit_char m]" by (subst str_nat.simps) simp
      with n "1.prems" have "digit_char n = digit_char m" by simp
      with True mt show ?thesis by (rule digit_char_inj)
    next
      case False
      then have "str_nat m = str_nat (m div 10) @ [digit_char (m mod 10)]"
        by (subst str_nat.simps) simp
      with n "1.prems" str_nat_nonempty[of "m div 10"] show ?thesis by (cases "str_nat (m div 10)") auto
    qed
  next
    case False
    then have n: "str_nat n = str_nat (n div 10) @ [digit_char (n mod 10)]"
      by (subst str_nat.simps) simp
    show ?thesis
    proof (cases "m < 10")
      case True
      then have "str_nat m = [digit_char m]" by (subst str_nat.simps) simp
      with n "1.prems" str_nat_nonempty[of "n div 10"] show ?thesis by (cases "str_nat (n div 10)") auto
    next
      case mf: False
      then have "str_nat m = str_nat (m div 10) @ [digit_char (m mod 10)]"
        by (subst str_nat.simps) simp
      with n "1.prems" have e: "str_nat (n div 10) = str_nat (m div 10)"
        and d: "digit_char (n mod 10) = digit_char (m mod 10)" by simp_all
      from "1.IH"[OF False e] have q: "n div 10 = m div 10" .
      have "n mod 10 = m mod 10" using d by (intro digit_char_inj) simp_all
      with q show ?thesis by (metis div_mult_mod_eq)
    qed
  qed
qed

lemma slide_png_inj: "0 \<le> i \<Longrightarrow> 0 \<le> j \<Longrightarrow> slide_png i = slide_png j \<Longrightarrow> i = j"
proof -
  assume i: "0 \<le> i" and j: "0 \<le> j" and e: "slide_png i = slide_png j"
  from e i j have "str_nat (nat i) = str_nat (nat j)" by (simp add: slide_png_def str_int_def)
  then have "nat i = nat j" by (rule str_nat_inj)
  with i j show "i = j" by simp
qed

lemma path_join_inj: "path_join d a = path_join d b \<longleftrightarrow> a = b"
  by (simp add: path_join_def)

section \<open>What Convert leaves on disk\<close>

lemma draw_shape_size:
  "draw_shape lib shape img = (Inr img', lg) \<Longrightarrow> im_size img' = im_size img"
  by (auto simp: draw_shape_def Image_paste_def ImageDraw_text_def Let_def
        split: if_splits sum.splits exn.splits)

lemma draw_shapes_size:
  "draw_shapes lib shps img = (Inr img', lg) \<Longrightarrow> im_size img' = im_size img"
proof (induction shps arbitrary: img lg)
  case Nil
  then show ?case by simp
next
  case (Cons shape rest)
  then show ?case
    by (auto split: prod.splits sum.splits dest: draw_shape_size)
qed

lemma rasterize_size:
  "rasterize lib slide width height = Inr img \<Longrightarrow> im_size img = (nat width, nat height)"
proof -
  assume r: "rasterize lib slide width height = Inr img"
  then obtain canvas where c: "Image_new (width, height) (255, 255, 255) = Inr (canvas :: rgb image)"
    and d: "fst (draw_shapes lib (shapes slide) canvas) = Inr img"
    by (auto simp: rasterize_def split: sum.splits)
  from c have "im_size canvas = (nat width, nat height)"
    by (auto simp: Image_new_def split: if_splits)
  moreover from d have "im_size img = im_size canvas"
    by (cases "draw_shapes lib (shapes slide) canvas") (auto dest: draw_shapes_size)
  ultimately show ?thesis by simp
qed

lemma draw_slide_content_success:
  "draw_slide_content lib slide width height output_path s = (Inr u, s') \<Longrightarrow>
   \<exists>img. rasterize lib slide width height = Inr img \<and>
         files s' = (files s)(output_path \<mapsto> img) \<and> comments_store s' = comments_store s"
  by (auto simp: draw_slide_content_def rasterize_def Image_save_def
        split: sum.splits prod.splits if_splits)

lemma convert_slides_step:
  assumes "convert_slides lib w h idx (slide # rest) s = (Inr u, s')"
  shows "\<exists>img s2. rasterize lib slide w h = Inr img \<and>
           files s2 = (files s)(path_join ORIGINAL_DIR (slide_png idx) \<mapsto> img,
                                path_join OUTPUT_DIR (slide_png idx) \<mapsto> img) \<and>
           comments_store s2 = comments_store s \<and>
           convert_slides lib w h (idx + 1) rest s2 = (Inr u, s')"
proof -
  let ?o = "path_join ORIGINAL_DIR (slide_png idx)"
  from assms obtain u1 s1 where d: "draw_slide_content lib slide w h ?o s = (Inr u1, s1)"
    by (cases "draw_slide_content lib slide w h ?o s") (auto simp: Let_def split: sum.splits)
  from draw_slide_content_success[OF d] obtain img where
    r: "rasterize lib slide w h = Inr img" and f1: "files s1 = (files s)(?o \<mapsto> img)"
    and c1: "comments_store s1 = comments_store s" by blast
  let ?s2 = "s1\<lparr>files := (files s1)(path_join OUTPUT_DIR (slide_png idx) \<mapsto> img)\<rparr>"
  have cp: "shutil_copy ?o (path_join OUTPUT_DIR (slide_png idx)) s1 = (Inr (), ?s2)"
    by (simp add: shutil_copy_def f1)
  from assms d cp have "convert_slides lib w h (idx + 1) rest ?s2 = (Inr u, s')"
    by (simp add: Let_def)
  with r f1 c1 show ?thesis by (intro exI[of _ img] exI[of _ ?s2]) simp
qed

lemma convert_slides_comments:
  "convert_slides lib w h idx sl s = (Inr u, s') \<Longrightarrow> comments_store s' = comments_store s"
proof (induction sl arbitrary: idx s)
  case Nil
  then show ?case by simp
next
  case (Cons slide rest)
  from convert_slides_step[OF Cons.prems] obtain img :: "rgb image" and s2 where
    "comments_store s2 = comments_store s" "convert_slides lib w h (idx + 1) rest s2 = (Inr u, s')"
    by blast
  with Cons.IH[of "idx + 1" s2] show ?case by simp
qed

lemma convert_slides_other_files:
  "convert_slides lib w h idx sl s = (Inr u, s') \<Longrightarrow>
   \<forall>k<length sl. p \<noteq> path_join ORIGINAL_DIR (slide_png (idx + int k)) \<and>
                  p \<noteq> path_join OUTPUT_DIR (slide_png (idx + int k)) \<Longrightarrow>
   files s' p = files s p"
proof (induction sl arbitrary: idx s)
  case Nil
  then show ?case by simp
next
  case (Cons slide rest)
  from convert_slides_step[OF Cons.prems(1)] obtain img s2 where
    f2: "files s2 = (files s)(path_join ORIGINAL_DIR (slide_png idx) \<mapsto> img,
                              path_join OUTPUT_DIR (slide_png idx) \<mapsto> img)"
    and r: "convert_slides lib w h (idx + 1) rest s2 = (Inr u, s')"
    by blast
  have "\<forall>k<length rest. p \<noteq> path_join ORIGINAL_DIR (slide_png (idx + 1 + int k)) \<and>
                          p \<noteq> path_join OUTPUT_DIR (slide_png (idx + 1 + int k))"
  proof (intro allI impI)
    fix k assume "k < length rest"
    then have "Suc k < length (slide # rest)" by simp
    with Cons.prems(2) have "p \<noteq> path_join ORIGINAL_DIR (slide_png (idx + int (Suc k))) \<and>
        p \<noteq> path_join OUTPUT_DIR (slide_png (idx + int (Suc k)))" by blast
    then show "p \<noteq> path_join ORIGINAL_DIR (slide_png (idx + 1 + int k)) \<and>
        p \<noteq> path_join OUTPUT_DIR (slide_png (idx + 1 + int k))" by (simp add: add.assoc)
  qed
  from Cons.IH[OF r this] have "files s' p = files s2 p" .
  moreover from Cons.prems(2) have "p \<noteq> path_join ORIGINAL_DIR (slide_png idx) \<and>
      p \<noteq> path_join OUTPUT_DIR (slide_png idx)"
    by (auto dest: spec[of _ 0])
  ultimately show ?case by (simp add: f2)
qed

lemma convert_slides_new_files:
  "convert_slides lib w h idx sl s = (Inr u, s') \<Longrightarrow> 0 \<le> idx \<Longrightarrow> k < length sl \<Longrightarrow>
   \<exists>img. rasterize lib (sl ! k) w h = Inr img \<and>
         files s' (path_join ORIGINAL_DIR (slide_png (idx + int k))) = Some img \<and>
         files s' (path_join OUTPUT_DIR (slide_png (idx + int k))) = Some img"
proof (induction sl arbitrary: idx s k)
  case Nil
  then show ?case by simp
next
  case (Cons slide rest)
  from convert_slides_step[OF Cons.prems(1)] obtain img s2 where
    ra: "rasterize lib slide w h = Inr img"
    and f2: "files s2 = (files s)(path_join ORIGINAL_DIR (slide_png idx) \<mapsto> img,
                              path_join OUTPUT_DIR (slide_png idx) \<mapsto> img)"
    and r: "convert_slides lib w h (idx + 1) rest s2 = (Inr u, s')"
    by blast
  show ?case
  proof (cases k)
    case 0
    have later: "slide_png idx \<noteq> slide_png (idx + 1 + int j)" for j
      using slide_png_inj[of idx "idx + 1 + int j"] Cons.prems(2) by auto
    have "files s' (path_join ORIGINAL_DIR (slide_png idx)) = files s2 (path_join ORIGINAL_DIR (slide_png idx))"
      by (rule convert_slides_other_files[OF r])
         (simp add: path_join_inj later original_path_neq_output_path)
    moreover
    have "files s' (path_join OUTPUT_DIR (slide_png idx)) = files s2 (path_join OUTPUT_DIR (slide_png idx))"
      by (rule convert_slides_other_files[OF r])
         (simp add: path_join_inj later original_path_neq_output_path[symmetric])
    ultimately show ?thesis using 0 ra
      by (simp add: f2 original_path_neq_output_path)
  next
    case (Suc j)
    with Cons.prems have j: "j < length rest" and i: "0 \<le> idx + 1" by simp_all
    have e: "idx + int k = idx + 1 + int j" using Suc by simp
    from Cons.IH[OF r i j] Suc show ?thesis unfolding e by simp
  qed
qed

lemma clear_dirs_files:
  "fold clear_dir [OUTPUT_DIR, ORIGINAL_DIR] fs p =
     (if startswith p (OUTPUT_DIR @ ''/'') \<or> startswith p (ORIGINAL_DIR @ ''/'') then None else fs p)"
  by (simp add: clear_dir_def)

lemma startswith_path_join: "startswith (path_join d f) (d @ ''/'')"
  by (simp add: startswith_def path_join_def)

lemma map_upt_upto: "map (\<lambda>i. f (int i + 1)) [0..<n] = map f [1..int n]"
proof (induction n)
  case 0
  then show ?case by simp
next
  case (Suc n)
  have "[1..int (Suc n)] = [1..int n] @ [int n + 1]"
    using upto_rec2[of 1 "int (Suc n)"] by (simp add: add.commute)
  with Suc show ?case by simp
qed

lemma convert_ppt_success:
  assumes "fst (convert_ppt lib filename contents s) = Return r"
  shows "\<exists>prs u s2. Presentation lib contents = Inr prs \<and>
           convert_slides lib (slide_width prs div 9525) (slide_height prs div 9525) 1 (slides prs)
             (s\<lparr>files := fold clear_dir [OUTPUT_DIR, ORIGINAL_DIR] (files s)\<rparr>) = (Inr u, s2) \<and>
           snd (convert_ppt lib filename contents s) = s2\<lparr>comments_store := Map.empty\<rparr> \<and>
           r = \<lparr>slideCount = int (length (slides prs)),
                imageUrls = map (\<lambda>i. ''/slides/'' @ slide_png i) [1..int (length (slides prs))]\<rparr>"
proof -
  have urls: "map (\<lambda>i. ''/slides/slide_'' @ str_int (int i + 1) @ ''.png'') [0..<n] =
              map (\<lambda>i. ''/slides/'' @ slide_png i) [1..int n]" for n
    using map_upt_upto[of "\<lambda>j. ''/slides/'' @ slide_png j" n] by (simp add: slide_png_def)
  show ?thesis
    using assms unfolding convert_ppt_def convert_ppt_try_def Let_def urls
    by (auto split: if_splits sum.splits prod.splits outcome.splits)
qed

lemmas demo_eval = demo_library_def two_slide_presentation_def hello_shape_def picture_shape_def
  two_pixels_def commented_session_def convert_ppt_def convert_ppt_try_def endswith_def lower_def
  lower_char_def char_of_eq_iff take_bit_eq_mod draw_slide_content_def draw_shape_def Image_new_def
  Image_resize_def Image_paste_def Image_save_def fits_C_int_def ImageDraw_text_def strip_def
  isspace_def shutil_copy_def Let_def

lemma demo_convert_outcome:
  "fst (convert_ppt demo_library ''deck.pptx'' [] commented_session) =
     Return \<lparr>slideCount = 2, imageUrls = [''/slides/slide_1.png'', ''/slides/slide_2.png'']\<rparr>"
  by (simp add: demo_eval str_int_def str_nat.simps digit_char_def)

text \<open>
  C7. After a successful Convert the comment store is empty, so \<open>get_comments\<close> is empty for
  every slide number, and every file found in either image directory is the image this
  Convert rasterized for one of the slides of the uploaded document, under that slide's
  number.
\<close>

theorem convert_ppt_resets_session:
  assumes "fst (convert_ppt lib filename contents s) = Return r"
  shows "(\<forall>n. get_comments n (snd (convert_ppt lib filename contents s)) = []) \<and>
         (\<forall>p img. (startswith p (OUTPUT_DIR @ ''/'') \<or> startswith p (ORIGINAL_DIR @ ''/'')) \<and>
                  files (snd (convert_ppt lib filename contents s)) p = Some img \<longrightarrow>
            (\<exists>prs k. Presentation lib contents = Inr prs \<and> k < length (slides prs) \<and>
               (p = path_join ORIGINAL_DIR (slide_png (1 + int k)) \<or>
                p = path_join OUTPUT_DIR (slide_png (1 + int k))) \<and>
               rasterize lib (slides prs ! k) (slide_width prs div 9525) (slide_height prs div 9525) =
                 Inr img))"
proof -
  let ?s' = "snd (convert_ppt lib filename contents s)"
  let ?s1 = "s\<lparr>files := fold clear_dir [OUTPUT_DIR, ORIGINAL_DIR] (files s)\<rparr>"
  from convert_ppt_success[OF assms] obtain prs u s2 where
    P: "Presentation lib contents = Inr prs"
    and cs: "convert_slides lib (slide_width prs div 9525) (slide_height prs div 9525) 1 (slides prs) ?s1
               = (Inr u, s2)"
    and s': "?s' = s2\<lparr>comments_store := Map.empty\<rparr>"
    by blast
  have comments: "\<forall>n. get_comments n ?s' = []"
    by (simp add: s' get_comments_def)
  have dirs: "\<exists>k. k < length (slides prs) \<and>
               (p = path_join ORIGINAL_DIR (slide_png (1 + int k)) \<or>
                p = path_join OUTPUT_DIR (slide_png (1 + int k))) \<and>
               rasterize lib (slides prs ! k) (slide_width prs div 9525) (slide_height prs div 9525) =
                 Inr img"
    if d: "startswith p (OUTPUT_DIR @ ''/'') \<or> startswith p (ORIGINAL_DIR @ ''/'')"
      and f: "files ?s' p = Some img" for p img
  proof -
    have cleared: "files ?s1 p = None" using d by (auto simp: clear_dir_def)
    have "\<not> (\<forall>k<length (slides prs). p \<noteq> path_join ORIGINAL_DIR (slide_png (1 + int k)) \<and>
                  p \<noteq> path_join OUTPUT_DIR (slide_png (1 + int k)))"
    proof
      assume "\<forall>k<length (slides prs). p \<noteq> path_join ORIGINAL_DIR (slide_png (1 + int k)) \<and>
                  p \<noteq> path_join OUTPUT_DIR (slide_png (1 + int k))"
      from convert_slides_other_files[OF cs this] cleared f show False by (simp add: s')
    qed
    then obtain k where k: "k < length (slides prs)"
      and p: "p = path_join ORIGINAL_DIR (slide_png (1 + int k)) \<or>
              p = path_join OUTPUT_DIR (slide_png (1 + int k))" by blast
    from convert_slides_new_files[OF cs _ k] obtain img' where
      "rasterize lib (slides prs ! k) (slide_width prs div 9525) (slide_height prs div 9525) = Inr img'"
      "files s2 (path_join ORIGINAL_DIR (slide_png (1 + int k))) = Some img'"
      "files s2 (path_join OUTPUT_DIR (slide_png (1 + int k))) = Some img'" by auto
    with p f have "rasterize lib (slides prs ! k) (slide_width prs div 9525) (slide_height prs div 9525) = Inr img"
      by (auto simp: s')
    with k p show ?thesis by blast
  qed
  from comments dirs P show ?thesis by blast
qed

theorem convert_ppt_resets_session_witness:
  "fst (convert_ppt demo_library ''deck.pptx'' [] commented_session) =
     Return \<lparr>slideCount = 2, imageUrls = [''/slides/slide_1.png'', ''/slides/slide_2.png'']\<rparr> \<and>
   get_comments 1 commented_session = [''Looks good''] \<and>
   get_comments 1 (snd (convert_ppt demo_library ''deck.pptx'' [] commented_session)) = [] \<and>
   files commented_session ''slides/slide_7.png'' = Some white_2x2 \<and>
   startswith ''slides/slide_7.png'' (OUTPUT_DIR @ ''/'') \<and>
   files (snd (convert_ppt demo_library ''deck.pptx'' [] commented_session)) ''slides/slide_7.png'' \<noteq>
     Some white_2x2"
proof -
  have c: "get_comments 1 commented_session = [''Looks good'']"
    by (simp add: get_comments_def commented_session_def)
  have f: "files commented_session ''slides/slide_7.png'' = Some white_2x2"
    by (simp add: commented_session_def)
  have sw: "startswith ''slides/slide_7.png'' (OUTPUT_DIR @ ''/'')"
    by (simp add: startswith_def OUTPUT_DIR_def)
  note T = convert_ppt_resets_session [OF demo_convert_outcome]
  from T have g: "get_comments 1 (snd (convert_ppt demo_library ''deck.pptx'' [] commented_session)) = []"
    by blast
  have n: "files (snd (convert_ppt demo_library ''deck.pptx'' [] commented_session)) ''slides/slide_7.png'' \<noteq>
     Some white_2x2"
  proof
    assume a: "files (snd (convert_ppt demo_library ''deck.pptx'' [] commented_session)) ''slides/slide_7.png'' =
     Some white_2x2"
    with T sw obtain prs k where "Presentation demo_library [] = Inr prs" "k < length (slides prs)"
      "''slides/slide_7.png'' = path_join ORIGINAL_DIR (slide_png (1 + int k)) \<or>
       ''slides/slide_7.png'' = path_join OUTPUT_DIR (slide_png (1 + int k))" by blast
    then have "k < 2" "''slides/slide_7.png'' = path_join ORIGINAL_DIR (slide_png (1 + int k)) \<or>
       ''slides/slide_7.png'' = path_join OUTPUT_DIR (slide_png (1 + int k))"
      by (auto simp: demo_library_def two_slide_presentation_def)
    then have "k = 0 \<or> k = 1" by auto
    with \<open>''slides/slide_7.png'' = path_join ORIGINAL_DIR (slide_png (1 + int k)) \<or>
       ''slides/slide_7.png'' = path_join OUTPUT_DIR (slide_png (1 + int k))\<close>
    show False by (auto simp: path_eval)
  qed
  from demo_convert_outcome c g f sw n show ?thesis by simp
qed

lemma original_paths_inj:
  "inj_on (\<lambda>i. path_join ORIGINAL_DIR (slide_png i)) {1..n}"
  by (rule inj_onI) (auto simp: path_join_inj dest: slide_png_inj[rotated 2])

text \<open>
  C4. A successful Convert answers the number of slides and one URL per slide in slide
  order. The base image directory then holds exactly the files \<open>slide_1.png\<close> to
  \<open>slide_N.png\<close>, pairwise distinct, each the raster of its slide, and each of the one size
  obtained from the document's nominal width and height divided by 9525.
\<close>

theorem convert_ppt_one_image_per_slide:
  assumes "fst (convert_ppt lib filename contents s) = Return r"
    and "Presentation lib contents = Inr prs"
  shows "slideCount r = int (length (slides prs)) \<and>
         imageUrls r = map (\<lambda>i. ''/slides/'' @ slide_png i) [1..int (length (slides prs))] \<and>
         {p. startswith p (ORIGINAL_DIR @ ''/'') \<and>
             files (snd (convert_ppt lib filename contents s)) p \<noteq> None} =
           (\<lambda>i. path_join ORIGINAL_DIR (slide_png i)) ` {1..int (length (slides prs))} \<and>
         inj_on (\<lambda>i. path_join ORIGINAL_DIR (slide_png i)) {1..int (length (slides prs))} \<and>
         (\<forall>i\<in>{1..int (length (slides prs))}.
            \<exists>img. files (snd (convert_ppt lib filename contents s))
                    (path_join ORIGINAL_DIR (slide_png i)) = Some img \<and>
                  rasterize lib (slides prs ! nat (i - 1))
                    (slide_width prs div 9525) (slide_height prs div 9525) = Inr img \<and>
                  im_size img = (nat (slide_width prs div 9525), nat (slide_height prs div 9525)))"
proof -
  let ?s' = "snd (convert_ppt lib filename contents s)"
  let ?s1 = "s\<lparr>files := fold clear_dir [OUTPUT_DIR, ORIGINAL_DIR] (files s)\<rparr>"
  let ?W = "slide_width prs div 9525" and ?H = "slide_height prs div 9525"
  let ?N = "int (length (slides prs))"
  let ?orig = "\<lambda>i. path_join ORIGINAL_DIR (slide_png i)"
  from convert_ppt_success[OF assms(1)] assms(2) obtain u s2 where
    cs: "convert_slides lib ?W ?H 1 (slides prs) ?s1 = (Inr u, s2)"
    and s': "?s' = s2\<lparr>comments_store := Map.empty\<rparr>"
    and r: "r = \<lparr>slideCount = ?N, imageUrls = map (\<lambda>i. ''/slides/'' @ slide_png i) [1..?N]\<rparr>"
    by auto
  have each: "\<exists>img. files ?s' (?orig i) = Some img \<and>
                rasterize lib (slides prs ! nat (i - 1)) ?W ?H = Inr img \<and>
                im_size img = (nat ?W, nat ?H)" if i: "i \<in> {1..?N}" for i
  proof -
    from i have k: "nat (i - 1) < length (slides prs)" and e: "1 + int (nat (i - 1)) = i" by auto
    from convert_slides_new_files[OF cs _ k] obtain img where
      ra: "rasterize lib (slides prs ! nat (i - 1)) ?W ?H = Inr img"
      and f: "files s2 (?orig (1 + int (nat (i - 1)))) = Some img" by auto
    from f have "files ?s' (?orig i) = Some img" unfolding e by (simp add: s')
    with ra rasterize_size[OF ra] show ?thesis by blast
  qed
  have sub: "?orig ` {1..?N} \<subseteq> {p. startswith p (ORIGINAL_DIR @ ''/'') \<and> files ?s' p \<noteq> None}"
  proof (rule image_subsetI)
    fix i assume "i \<in> {1..?N}"
    from each[OF this] show "?orig i \<in> {p. startswith p (ORIGINAL_DIR @ ''/'') \<and> files ?s' p \<noteq> None}"
      by (auto simp: startswith_path_join)
  qed
  have sup: "{p. startswith p (ORIGINAL_DIR @ ''/'') \<and> files ?s' p \<noteq> None} \<subseteq> ?orig ` {1..?N}"
  proof
    fix p assume "p \<in> {p. startswith p (ORIGINAL_DIR @ ''/'') \<and> files ?s' p \<noteq> None}"
    then have d: "startswith p (ORIGINAL_DIR @ ''/'')" and f: "files ?s' p \<noteq> None" by simp_all
    have cleared: "files ?s1 p = None" using d by (auto simp: clear_dir_def)
    have "\<not> (\<forall>k<length (slides prs). p \<noteq> path_join ORIGINAL_DIR (slide_png (1 + int k)) \<and>
                  p \<noteq> path_join OUTPUT_DIR (slide_png (1 + int k)))"
    proof
      assume "\<forall>k<length (slides prs). p \<noteq> path_join ORIGINAL_DIR (slide_png (1 + int k)) \<and>
                  p \<noteq> path_join OUTPUT_DIR (slide_png (1 + int k))"
      from convert_slides_other_files[OF cs this] cleared f show False by (simp add: s')
    qed
    then obtain k where k: "k < length (slides prs)"
      and p: "p = path_join ORIGINAL_DIR (slide_png (1 + int k)) \<or>
              p = path_join OUTPUT_DIR (slide_png (1 + int k))" by blast
    have "\<not> startswith (path_join OUTPUT_DIR f) (ORIGINAL_DIR @ ''/'')" for f
      by (simp add: startswith_def path_join_def OUTPUT_DIR_def ORIGINAL_DIR_def)
    with p d have "p = ?orig (1 + int k)" by auto
    moreover from k have "1 + int k \<in> {1..?N}" by simp
    ultimately show "p \<in> ?orig ` {1..?N}" by blast
  qed
  from sub sup have dir: "{p. startswith p (ORIGINAL_DIR @ ''/'') \<and> files ?s' p \<noteq> None} = ?orig ` {1..?N}"
    by (rule subset_antisym[rotated])
  show ?thesis using r dir original_paths_inj each by simp
qed

lemma demo_presentation: "Presentation demo_library [] = Inr two_slide_presentation"
  by (simp add: demo_library_def)

theorem convert_ppt_one_image_per_slide_witness:
  "fst (convert_ppt demo_library ''deck.pptx'' [] commented_session) =
     Return \<lparr>slideCount = 2, imageUrls = [''/slides/slide_1.png'', ''/slides/slide_2.png'']\<rparr> \<and>
   Presentation demo_library [] = Inr two_slide_presentation \<and>
   (2::int) \<in> {1..int (length (slides two_slide_presentation))} \<and>
   (\<exists>img. files (snd (convert_ppt demo_library ''deck.pptx'' [] commented_session))
             (path_join ORIGINAL_DIR (slide_png 2)) = Some img \<and>
          im_size img = (960, 720))"
proof -
  note T = convert_ppt_one_image_per_slide [OF demo_convert_outcome demo_presentation]
  have m: "(2::int) \<in> {1..int (length (slides two_slide_presentation))}"
    by (simp add: two_slide_presentation_def)
  from T m have "\<exists>img. files (snd (convert_ppt demo_library ''deck.pptx'' [] commented_session))
             (path_join ORIGINAL_DIR (slide_png 2)) = Some img \<and>
          im_size img = (nat (slide_width two_slide_presentation div 9525),
                         nat (slide_height two_slide_presentation div 9525))"
    by blast
  then have "\<exists>img. files (snd (convert_ppt demo_library ''deck.pptx'' [] commented_session))
             (path_join ORIGINAL_DIR (slide_png 2)) = Some img \<and> im_size img = (960, 720)"
    by (simp add: two_slide_presentation_def)
  with demo_convert_outcome demo_presentation m show ?thesis by blast
qed


section \<open>Unit conversion\<close>

lemma is_floor_px_div: "is_floor_px v (v div 9525)"
proof -
  have "v = 9525 * (v div 9525) + v mod 9525" by simp
  moreover have "0 \<le> v mod 9525" "v mod 9525 < 9525" by simp_all
  ultimately show ?thesis unfolding is_floor_px_def by linarith
qed

lemma is_floor_px_unique: "is_floor_px v p \<Longrightarrow> p = v div 9525"
proof -
  assume "is_floor_px v p"
  then have "v = 9525 * p + (v - 9525 * p)" "0 \<le> v - 9525 * p" "v - 9525 * p < 9525"
    unfolding is_floor_px_def by simp_all
  then have "v div 9525 = p" by (rule int_div_pos_eq)
  then show ?thesis by simp
qed

lemma truncating_px_nonneg: "0 \<le> v \<Longrightarrow> truncating_px v = v div 9525"
  by (simp add: truncating_px_def signed_divide_int_def sgn_if)

lemma rasterize_canvas:
  "rasterize lib slide width height = Inr img \<Longrightarrow>
   int (fst (im_size img)) = width \<and> int (snd (im_size img)) = height"
proof -
  assume r: "rasterize lib slide width height = Inr img"
  then have "0 \<le> width \<and> 0 \<le> height"
    by (auto simp: rasterize_def Image_new_def split: sum.splits if_splits)
  with rasterize_size[OF r] show ?thesis by simp
qed

text \<open>
  C5, as stated, fails. A picture whose left edge is half a pixel left of the slide
  (\<open>left = -4762\<close>) is pasted at column \<open>-1\<close>, since \<open>//\<close> rounds toward minus infinity: the
  canvas pixel (0, 0) takes the picture's second pixel. Truncation would place it at column 0
  and paint the picture's first pixel there.
\<close>

theorem placement_by_truncation_counterexample:
  "pixel_of (fst (draw_shape demo_library offset_picture white_2x1)) 0 0 = Some (40, 50, 60) \<and>
   pixel_of (paint_picture_truncating demo_library offset_picture white_2x1
              (ImageFile (Inr two_pixels))) 0 0 =
     Some (10, 20, 30) \<and>
   Image_open_blob demo_library (image_blob offset_picture) = Inr (ImageFile (Inr two_pixels)) \<and>
   shape_left offset_picture div 9525 = - 1 \<and> truncating_px (shape_left offset_picture) = 0"
  by (simp add: pixel_of_def draw_shape_def paint_picture_truncating_def truncating_px_def
        demo_library_def offset_picture_def white_2x1_def two_pixels_def Image_resize_def
        Image_paste_def fits_C_int_def inside_def signed_divide_int_def Let_def)

text \<open>
  C5, amended. Every field the code uses is divided by the one fixed divisor 9525 with
  floor division (rounding toward minus infinity) before it reaches a pixel operation:
  left, top, width and height of a picture go to \<open>resize\<close> and \<open>paste\<close> so divided, left and
  top of a text shape to \<open>draw.text\<close> (its width and height are not used), and every base
  image a successful Convert writes has the document's nominal width and height so
  divided as its size. The result is the unique pixel value with
  \<open>9525 * p \<le> v < 9525 * p + 9525\<close>; for a non-negative field it is the truncated quotient.
\<close>

theorem placement_uses_floor_division:
  "(shape_type shape = 13 \<and> Image_open_blob lib (image_blob shape) = Inr pil_img \<longrightarrow>
      (\<exists>l t w h. is_floor_px (shape_left shape) l \<and> is_floor_px (shape_top shape) t \<and>
         is_floor_px (shape_width shape) w \<and> is_floor_px (shape_height shape) h \<and>
         draw_shape lib shape img =
           (case Image_resize lib pil_img (w, h) of
              Inl e \<Rightarrow> (Inl e, [])
            | Inr pil_img' \<Rightarrow> (Image_paste img pil_img' (l, t), [])))) \<and>
   (shape_type shape \<noteq> 13 \<and> has_text_frame shape \<and>
      strip (frame_text (paragraphs shape) []) \<noteq> [] \<longrightarrow>
      (\<exists>l t. is_floor_px (shape_left shape) l \<and> is_floor_px (shape_top shape) t \<and>
         draw_shape lib shape img =
           (ImageDraw_text blend_rgb lib img (l, t) (frame_text (paragraphs shape) []) (0, 0, 0), []))) \<and>
   (fst (convert_ppt lib filename contents s) = Return r \<and> Presentation lib contents = Inr prs \<longrightarrow>
      (\<exists>W H. is_floor_px (slide_width prs) W \<and> is_floor_px (slide_height prs) H \<and>
         (\<forall>i\<in>{1..int (length (slides prs))}.
            \<exists>img. files (snd (convert_ppt lib filename contents s))
                    (path_join ORIGINAL_DIR (slide_png i)) = Some img \<and>
                  rasterize lib (slides prs ! nat (i - 1)) W H = Inr img \<and>
                  int (fst (im_size img)) = W \<and> int (snd (im_size img)) = H))) \<and>
   (is_floor_px v p \<longrightarrow> (\<forall>q. is_floor_px v q \<longrightarrow> q = p) \<and> (0 \<le> v \<longrightarrow> p = truncating_px v))"
proof (intro conjI impI)
  assume a: "shape_type shape = 13 \<and> Image_open_blob lib (image_blob shape) = Inr pil_img"
  have "draw_shape lib shape img =
           (case Image_resize lib pil_img (shape_width shape div 9525, shape_height shape div 9525) of
              Inl e \<Rightarrow> (Inl e, [])
            | Inr pil_img' \<Rightarrow>
                (Image_paste img pil_img' (shape_left shape div 9525, shape_top shape div 9525), []))"
    using a by (simp add: draw_shape_def Let_def)
  then show "\<exists>l t w h. is_floor_px (shape_left shape) l \<and> is_floor_px (shape_top shape) t \<and>
         is_floor_px (shape_width shape) w \<and> is_floor_px (shape_height shape) h \<and>
         draw_shape lib shape img =
           (case Image_resize lib pil_img (w, h) of
              Inl e \<Rightarrow> (Inl e, [])
            | Inr pil_img' \<Rightarrow> (Image_paste img pil_img' (l, t), []))"
    using is_floor_px_div by blast
next
  assume a: "shape_type shape \<noteq> 13 \<and> has_text_frame shape \<and>
      strip (frame_text (paragraphs shape) []) \<noteq> []"
  have "draw_shape lib shape img =
      (ImageDraw_text blend_rgb lib img (shape_left shape div 9525, shape_top shape div 9525)
         (frame_text (paragraphs shape) []) (0, 0, 0), [])"
    using a by (simp add: draw_shape_def Let_def)
  then show "\<exists>l t. is_floor_px (shape_left shape) l \<and> is_floor_px (shape_top shape) t \<and>
         draw_shape lib shape img =
           (ImageDraw_text blend_rgb lib img (l, t) (frame_text (paragraphs shape) []) (0, 0, 0), [])"
    using is_floor_px_div by blast
next
  let ?s' = "snd (convert_ppt lib filename contents s)"
  let ?W = "slide_width prs div 9525" and ?H = "slide_height prs div 9525"
  assume a: "fst (convert_ppt lib filename contents s) = Return r \<and> Presentation lib contents = Inr prs"
  from convert_ppt_success[of lib filename contents s r] a
  obtain u s2 where cs: "convert_slides lib ?W ?H 1 (slides prs)
           (s\<lparr>files := fold clear_dir [OUTPUT_DIR, ORIGINAL_DIR] (files s)\<rparr>) = (Inr u, s2)"
    and s': "?s' = s2\<lparr>comments_store := Map.empty\<rparr>"
    by auto
  have "\<exists>img. files ?s' (path_join ORIGINAL_DIR (slide_png i)) = Some img \<and>
              rasterize lib (slides prs ! nat (i - 1)) ?W ?H = Inr img \<and>
              int (fst (im_size img)) = ?W \<and> int (snd (im_size img)) = ?H"
    if i: "i \<in> {1..int (length (slides prs))}" for i
  proof -
    from i have k: "nat (i - 1) < length (slides prs)" and e: "1 + int (nat (i - 1)) = i" by auto
    from convert_slides_new_files[OF cs _ k] obtain img where
      ra: "rasterize lib (slides prs ! nat (i - 1)) ?W ?H = Inr img"
      and f: "files s2 (path_join ORIGINAL_DIR (slide_png (1 + int (nat (i - 1))))) = Some img" by auto
    from f have "files ?s' (path_join ORIGINAL_DIR (slide_png i)) = Some img"
      unfolding e by (simp add: s')
    with ra rasterize_canvas[OF ra] show ?thesis by blast
  qed
  then show "\<exists>W H. is_floor_px (slide_width prs) W \<and> is_floor_px (slide_height prs) H \<and>
         (\<forall>i\<in>{1..int (length (slides prs))}.
            \<exists>img. files ?s' (path_join ORIGINAL_DIR (slide_png i)) = Some img \<and>
                  rasterize lib (slides prs ! nat (i - 1)) W H = Inr img \<and>
                  int (fst (im_size img)) = W \<and> int (snd (im_size img)) = H)"
    using is_floor_px_div by blast
next
  assume "is_floor_px v p"
  then show "\<forall>q. is_floor_px v q \<longrightarrow> q = p" by (auto dest: is_floor_px_unique)
next
  assume "is_floor_px v p" "0 \<le> v"
  then show "p = truncating_px v" by (simp add: truncating_px_nonneg is_floor_px_unique)
qed

theorem placement_uses_floor_division_witness:
  "(shape_type offset_picture = 13 \<and>
    Image_open_blob demo_library (image_blob offset_picture) = Inr (ImageFile (Inr two_pixels))) \<and>
   (\<exists>l t w h. is_floor_px (shape_left offset_picture) l \<and> is_floor_px (shape_top offset_picture) t \<and>
         is_floor_px (shape_width offset_picture) w \<and> is_floor_px (shape_height offset_picture) h \<and>
         draw_shape demo_library offset_picture white_2x1 =
           (case Image_resize demo_library (ImageFile (Inr two_pixels)) (w, h) of
              Inl e \<Rightarrow> (Inl e, [])
            | Inr pil_img' \<Rightarrow> (Image_paste white_2x1 pil_img' (l, t), []))) \<and>
   (shape_type hello_shape \<noteq> 13 \<and> has_text_frame hello_shape \<and>
      strip (frame_text (paragraphs hello_shape) []) \<noteq> []) \<and>
   (\<exists>l t. is_floor_px (shape_left hello_shape) l \<and> is_floor_px (shape_top hello_shape) t \<and>
         draw_shape demo_library hello_shape white_2x1 =
           (ImageDraw_text blend_rgb demo_library white_2x1 (l, t)
              (frame_text (paragraphs hello_shape) []) (0, 0, 0), [])) \<and>
   (fst (convert_ppt demo_library ''deck.pptx'' [] commented_session) =
      Return \<lparr>slideCount = 2, imageUrls = [''/slides/slide_1.png'', ''/slides/slide_2.png'']\<rparr> \<and>
    Presentation demo_library [] = Inr two_slide_presentation) \<and>
   (2::int) \<in> {1..int (length (slides two_slide_presentation))} \<and>
   is_floor_px (slide_width two_slide_presentation) 960 \<and>
   is_floor_px (slide_height two_slide_presentation) 720 \<and>
   (\<exists>img. files (snd (convert_ppt demo_library ''deck.pptx'' [] commented_session))
             (path_join ORIGINAL_DIR (slide_png 2)) = Some img \<and>
          int (fst (im_size img)) = 960 \<and> int (snd (im_size img)) = 720) \<and>
   is_floor_px (- 4762) (- 1) \<and> \<not> is_floor_px (- 4762) 0 \<and>
   is_floor_px 19050 2 \<and> (0::int) \<le> 19050 \<and> 2 = truncating_px 19050"
proof -
  note T = placement_uses_floor_division
             [of offset_picture demo_library "ImageFile (Inr two_pixels)" white_2x1 "''deck.pptx''" "[]"
                 commented_session
                 "\<lparr>slideCount = 2, imageUrls = [''/slides/slide_1.png'', ''/slides/slide_2.png'']\<rparr>"
                 two_slide_presentation "- 4762" "- 1"]
  note U = placement_uses_floor_division
             [of hello_shape demo_library "ImageFile (Inr two_pixels)" white_2x1 "''deck.pptx''" "[]"
                 commented_session
                 "\<lparr>slideCount = 2, imageUrls = [''/slides/slide_1.png'', ''/slides/slide_2.png'']\<rparr>"
                 two_slide_presentation "19050" "2"]
  have h1: "shape_type offset_picture = 13 \<and>
    Image_open_blob demo_library (image_blob offset_picture) = Inr (ImageFile (Inr two_pixels))"
    by (simp add: offset_picture_def demo_library_def)
  have h2: "shape_type hello_shape \<noteq> 13 \<and> has_text_frame hello_shape \<and>
      strip (frame_text (paragraphs hello_shape) []) \<noteq> []"
    by (simp add: hello_shape_def strip_def isspace_def)
  have h3: "fst (convert_ppt demo_library ''deck.pptx'' [] commented_session) =
      Return \<lparr>slideCount = 2, imageUrls = [''/slides/slide_1.png'', ''/slides/slide_2.png'']\<rparr> \<and>
    Presentation demo_library [] = Inr two_slide_presentation"
    using demo_convert_outcome demo_presentation by simp
  have h4: "is_floor_px (- 4762) (- 1)" "is_floor_px 19050 2" "(0::int) \<le> 19050"
    by (simp_all add: is_floor_px_def)
  have m: "(2::int) \<in> {1..int (length (slides two_slide_presentation))}"
    by (simp add: two_slide_presentation_def)
  have fl: "is_floor_px (slide_width two_slide_presentation) 960"
    "is_floor_px (slide_height two_slide_presentation) 720"
    by (simp_all add: is_floor_px_def two_slide_presentation_def)
  from T h4 have u: "\<forall>q. is_floor_px (- 4762) q \<longrightarrow> q = - 1" by blast
  have n: "\<not> is_floor_px (- 4762) 0"
  proof
    assume "is_floor_px (- 4762) 0"
    with u have "(0::int) = - 1" by blast
    then show False by simp
  qed
  from T h3 obtain W H where
    W: "is_floor_px (slide_width two_slide_presentation) W"
    and H: "is_floor_px (slide_height two_slide_presentation) H"
    and all: "\<forall>i\<in>{1..int (length (slides two_slide_presentation))}.
            \<exists>img. files (snd (convert_ppt demo_library ''deck.pptx'' [] commented_session))
                    (path_join ORIGINAL_DIR (slide_png i)) = Some img \<and>
                  rasterize demo_library (slides two_slide_presentation ! nat (i - 1)) W H = Inr img \<and>
                  int (fst (im_size img)) = W \<and> int (snd (im_size img)) = H"
    by blast
  have W': "W = 960" using is_floor_px_unique[OF W] is_floor_px_unique[OF fl(1)] by simp
  have H': "H = 720" using is_floor_px_unique[OF H] is_floor_px_unique[OF fl(2)] by simp
  note all' = all[unfolded W' H']
  from all' m have c: "\<exists>img. files (snd (convert_ppt demo_library ''deck.pptx'' [] commented_session))
             (path_join ORIGINAL_DIR (slide_png 2)) = Some img \<and>
          int (fst (im_size img)) = 960 \<and> int (snd (im_size img)) = 720"
    by blast
  from T h1 h3 h4 U h2 n m fl c show ?thesis by blast
qed

text \<open>
  An offset of \<open>2^31\<close> pixels or more does not fit the C int that \<open>paste\<close> takes: the
  exception leaves the loop.
\<close>

lemma far_offset_picture_raises:
  "fst (draw_shape demo_library (offset_picture\<lparr>shape_left := 9525 * 2 ^ 31\<rparr>) white_2x1) =
     Inl (Exception ''OverflowError: Python int too large to convert to C int'')"
  by (simp add: draw_shape_def demo_library_def offset_picture_def white_2x1_def two_pixels_def
        Image_resize_def Image_paste_def fits_C_int_def Let_def)

section \<open>Failures while drawing a shape\<close>

lemma draw_shapes_raise:
  "draw_shape lib shape img = (Inl e, lg) \<Longrightarrow> draw_shapes lib (shape # rest) img = (Inl e, lg)"
  by simp

lemma draw_slide_content_raise:
  "rasterize lib slide width height = Inl e \<Longrightarrow>
   fst (draw_slide_content lib slide width height output_path s) = Inl e \<and>
   files (snd (draw_slide_content lib slide width height output_path s)) = files s"
  by (auto simp: rasterize_def draw_slide_content_def split: sum.splits prod.splits)

lemma convert_ppt_outcomes:
  "(\<exists>r. fst (convert_ppt lib filename contents s) = Return r) \<or>
   status_code (fst (convert_ppt lib filename contents s)) = 400 \<or>
   status_code (fst (convert_ppt lib filename contents s)) = 500"
  by (auto simp: convert_ppt_def convert_ppt_try_def Let_def
        split: sum.splits prod.splits outcome.splits)

lemma convert_ppt_slide_raises:
  assumes "has_pptx_suffix_any_case filename" and "Presentation lib contents = Inr prs"
    and "k < length (slides prs)"
    and "rasterize lib (slides prs ! k) (slide_width prs div 9525) (slide_height prs div 9525) = Inl e"
  shows "status_code (fst (convert_ppt lib filename contents s)) = 500"
proof -
  have "\<not> (\<exists>r. fst (convert_ppt lib filename contents s) = Return r)"
  proof
    assume "\<exists>r. fst (convert_ppt lib filename contents s) = Return r"
    then obtain r where "fst (convert_ppt lib filename contents s) = Return r" ..
    from convert_ppt_success[OF this] assms(2) obtain u s2 where
      "convert_slides lib (slide_width prs div 9525) (slide_height prs div 9525) 1 (slides prs)
             (s\<lparr>files := fold clear_dir [OUTPUT_DIR, ORIGINAL_DIR] (files s)\<rparr>) = (Inr u, s2)"
      by auto
    from convert_slides_new_files[OF this _ assms(3)] assms(4) show False by auto
  qed
  moreover have "status_code (fst (convert_ppt lib filename contents s)) \<noteq> 400"
    using assms(1) by (simp add: convert_ppt_status endswith_lower_pptx)
  ultimately show ?thesis using convert_ppt_outcomes[of lib filename contents s] by blast
qed

text \<open>
  C2, as stated, fails, in two ways. A picture less than one pixel wide (\<open>width = 4762\<close>)
  decodes, but \<open>resize((0, 96))\<close> raises \<open>ValueError\<close>: the text shape after it is not painted,
  no image is saved for the slide, and Convert answers 500 with both image directories
  empty. And a picture whose payload opens but is cut off within its pixel data is not
  skipped either: \<open>Image.open\<close> succeeds inside the \<open>try\<close>, the \<open>IOError\<close> is raised by
  \<open>resize\<close> after it, and the slide is lost in the same way.
\<close>

theorem shape_failure_aborts_slide_counterexample:
  "fst (draw_slide_content demo_library \<lparr>shapes = [hairline_picture, hello_shape]\<rparr> 960 720
          ''original_slides/slide_1.png'' empty_session) =
     Inl (ValueError ''height and width must be > 0'') \<and>
   files (snd (draw_slide_content demo_library \<lparr>shapes = [hairline_picture, hello_shape]\<rparr> 960 720
          ''original_slides/slide_1.png'' empty_session)) ''original_slides/slide_1.png'' = None \<and>
   fst (convert_ppt hairline_library ''deck.pptx'' [] empty_session) =
     Raise (HTTPException 500 (InternalServerError (ValueError ''height and width must be > 0''))) \<and>
   files (snd (convert_ppt hairline_library ''deck.pptx'' [] empty_session)) = Map.empty \<and>
   draw_slide_content demo_library \<lparr>shapes = [truncated_picture, hello_shape]\<rparr> 960 720
          ''original_slides/slide_1.png'' empty_session =
     (Inl (IOError ''image file is truncated''), empty_session)"
  by (simp add: demo_eval hairline_picture_def truncated_picture_def hairline_library_def
        hairline_presentation_def empty_session_def clear_dir_def)

text \<open>
  C2, amended, for \<open>draw_slide_content\<close> of \<open>main.py\<close>. A picture whose payload makes
  \<open>Image.open\<close> raise \<open>IOError\<close> is skipped with one logged warning, and the remaining shapes
  are painted on the canvas as it was. An exception other than an \<open>IOError\<close> raised while a
  shape is drawn leaves the loop at once: the slide's image is not saved, no file changes,
  and Convert answers 500. (What an \<open>IOError\<close> raised after \<open>Image.open\<close> does is left out
  of the statement.)
\<close>

theorem undecodable_picture_skipped_other_failures_abort:
  "(shape_type shape = 13 \<and> Image_open_blob lib (image_blob shape) = Inl (IOError m) \<longrightarrow>
      draw_shapes lib (shape # rest) img =
        (fst (draw_shapes lib rest img),
         (WARNING, ''Error opening image in shape: {}. Skipping this image.'', IOError m) #
           snd (draw_shapes lib rest img))) \<and>
   (draw_shape lib shape img = (Inl e, lg) \<and> \<not> is_IOError e \<longrightarrow>
      draw_shapes lib (shape # rest) img = (Inl e, lg)) \<and>
   (rasterize lib slide width height = Inl e \<and> \<not> is_IOError e \<longrightarrow>
      fst (draw_slide_content lib slide width height output_path s) = Inl e \<and>
      files (snd (draw_slide_content lib slide width height output_path s)) = files s) \<and>
   (has_pptx_suffix_any_case filename \<and> Presentation lib contents = Inr prs \<and>
    k < length (slides prs) \<and>
    rasterize lib (slides prs ! k) (slide_width prs div 9525) (slide_height prs div 9525) = Inl e \<and>
    \<not> is_IOError e \<longrightarrow>
      status_code (fst (convert_ppt lib filename contents s)) = 500)"
proof (intro conjI impI)
  assume "shape_type shape = 13 \<and> Image_open_blob lib (image_blob shape) = Inl (IOError m)"
  then have "draw_shape lib shape img =
      (Inr img, [(WARNING, ''Error opening image in shape: {}. Skipping this image.'', IOError m)])"
    by (simp add: draw_shape_def)
  then show "draw_shapes lib (shape # rest) img =
        (fst (draw_shapes lib rest img),
         (WARNING, ''Error opening image in shape: {}. Skipping this image.'', IOError m) #
           snd (draw_shapes lib rest img))"
    by (simp add: case_prod_beta)
next
  assume "draw_shape lib shape img = (Inl e, lg) \<and> \<not> is_IOError e"
  then show "draw_shapes lib (shape # rest) img = (Inl e, lg)" by (simp add: draw_shapes_raise)
next
  assume "rasterize lib slide width height = Inl e \<and> \<not> is_IOError e"
  then have r: "rasterize lib slide width height = Inl e" by simp
  from draw_slide_content_raise[OF r]
  show "fst (draw_slide_content lib slide width height output_path s) = Inl e"
    and "files (snd (draw_slide_content lib slide width height output_path s)) = files s"
    by simp_all
next
  assume "has_pptx_suffix_any_case filename \<and> Presentation lib contents = Inr prs \<and>
    k < length (slides prs) \<and>
    rasterize lib (slides prs ! k) (slide_width prs div 9525) (slide_height prs div 9525) = Inl e \<and>
    \<not> is_IOError e"
  then show "status_code (fst (convert_ppt lib filename contents s)) = 500"
    using convert_ppt_slide_raises by blast
qed

theorem undecodable_picture_skipped_other_failures_abort_witness:
  "(shape_type picture_shape = 13 \<and>
    Image_open_blob example_library (image_blob picture_shape) = Inl (IOError ''cannot identify image file'')) \<and>
   draw_shapes example_library (picture_shape # [hello_shape]) white_2x2 =
     (fst (draw_shapes example_library [hello_shape] white_2x2),
      (WARNING, ''Error opening image in shape: {}. Skipping this image.'',
         IOError ''cannot identify image file'') #
        snd (draw_shapes example_library [hello_shape] white_2x2)) \<and>
   (draw_shape demo_library hairline_picture white_2x2 =
     (Inl (ValueError ''height and width must be > 0''), []) \<and>
    \<not> is_IOError (ValueError ''height and width must be > 0'')) \<and>
   draw_shapes demo_library (hairline_picture # [hello_shape]) white_2x2 =
     (Inl (ValueError ''height and width must be > 0''), []) \<and>
   rasterize demo_library \<lparr>shapes = [hairline_picture, hello_shape]\<rparr> 960 720 =
     Inl (ValueError ''height and width must be > 0'') \<and>
   fst (draw_slide_content demo_library \<lparr>shapes = [hairline_picture, hello_shape]\<rparr> 960 720
          ''original_slides/slide_1.png'' empty_session) =
     Inl (ValueError ''height and width must be > 0'') \<and>
   (has_pptx_suffix_any_case ''deck.pptx'' \<and>
    Presentation hairline_library [] = Inr hairline_presentation \<and>
    0 < length (slides hairline_presentation) \<and>
    rasterize hairline_library (slides hairline_presentation ! 0)
      (slide_width hairline_presentation div 9525) (slide_height hairline_presentation div 9525) =
      Inl (ValueError ''height and width must be > 0'')) \<and>
   status_code (fst (convert_ppt hairline_library ''deck.pptx'' [] empty_session)) = 500"
proof -
  let ?e = "ValueError ''height and width must be > 0''"
  have ne: "\<not> is_IOError ?e" by simp
  have h1: "shape_type picture_shape = 13 \<and>
    Image_open_blob example_library (image_blob picture_shape) = Inl (IOError ''cannot identify image file'')"
    by (simp add: picture_shape_def example_library_def)
  have h2: "draw_shape demo_library hairline_picture white_2x2 = (Inl ?e, [])"
    by (simp add: draw_shape_def hairline_picture_def demo_library_def two_pixels_def
          Image_resize_def Let_def)
  have h3: "rasterize demo_library \<lparr>shapes = [hairline_picture, hello_shape]\<rparr> 960 720 = Inl ?e"
    by (simp add: rasterize_def Image_new_def h2 draw_shape_def hairline_picture_def demo_library_def
          two_pixels_def Image_resize_def Let_def)
  have h4: "has_pptx_suffix_any_case ''deck.pptx'' \<and>
    Presentation hairline_library [] = Inr hairline_presentation \<and>
    0 < length (slides hairline_presentation) \<and>
    rasterize hairline_library (slides hairline_presentation ! 0)
      (slide_width hairline_presentation div 9525) (slide_height hairline_presentation div 9525) = Inl ?e"
    by (simp add: has_pptx_suffix_any_case_def hairline_library_def hairline_presentation_def
          rasterize_def Image_new_def draw_shape_def hairline_picture_def demo_library_def
          two_pixels_def Image_resize_def Let_def)
  note A = undecodable_picture_skipped_other_failures_abort
             [of picture_shape example_library "''cannot identify image file''" "[hello_shape]" white_2x2
                 ?e "[]" "\<lparr>shapes = [hairline_picture, hello_shape]\<rparr>" 960 720
                 "''original_slides/slide_1.png''" empty_session "''deck.pptx''" "[]" hairline_presentation 0]
  note B = undecodable_picture_skipped_other_failures_abort
             [of hairline_picture demo_library "[]" "[hello_shape]" white_2x2
                 ?e "[]" "\<lparr>shapes = [hairline_picture, hello_shape]\<rparr>" 960 720
                 "''original_slides/slide_1.png''" empty_session "''deck.pptx''" "[]" hairline_presentation 0]
  note C = undecodable_picture_skipped_other_failures_abort
             [of hairline_picture hairline_library "[]" "[hello_shape]" white_2x2
                 ?e "[]" "\<lparr>shapes = [hairline_picture, hello_shape]\<rparr>" 960 720
                 "''original_slides/slide_1.png''" empty_session "''deck.pptx''" "[]" hairline_presentation 0]
  from A h1 have c1: "draw_shapes example_library (picture_shape # [hello_shape]) white_2x2 =
     (fst (draw_shapes example_library [hello_shape] white_2x2),
      (WARNING, ''Error opening image in shape: {}. Skipping this image.'',
         IOError ''cannot identify image file'') #
        snd (draw_shapes example_library [hello_shape] white_2x2))" by blast
  from B h2 ne have c2: "draw_shapes demo_library (hairline_picture # [hello_shape]) white_2x2 = (Inl ?e, [])"
    by blast
  from B h3 ne have c3: "fst (draw_slide_content demo_library \<lparr>shapes = [hairline_picture, hello_shape]\<rparr> 960 720
          ''original_slides/slide_1.png'' empty_session) = Inl ?e" by blast
  from C h4 ne have c4: "status_code (fst (convert_ppt hairline_library ''deck.pptx'' [] empty_session)) = 500"
    by blast
  from h1 c1 h2 ne c2 h3 c3 h4 c4 show ?thesis by blast
qed

subsection \<open>The copy in \<open>venv/main.py\<close>\<close>

text \<open>
  The older copy has no handler: there the \<open>IOError\<close> of \<open>Image.open\<close> leaves the loop like
  every other exception, and nothing is saved for the slide.
\<close>

lemma draw_shapes_venv_raise:
  "draw_shape_venv lib shape img = Inl e \<Longrightarrow> draw_shapes_venv lib (shape # rest) img = Inl e"
  by simp

lemma draw_shape_venv_undecodable:
  "shape_type shape = 13 \<Longrightarrow> Image_open_blob lib (image_blob shape) = Inl e \<Longrightarrow>
   draw_shape_venv lib shape img = Inl e"
  by (simp add: draw_shape_venv_def)

lemma draw_slide_content_venv_undecodable:
  "draw_slide_content_venv example_library \<lparr>shapes = [picture_shape, hello_shape]\<rparr> 960 720
      ''original_slides/slide_1.png'' empty_session =
     (Inl (IOError ''cannot identify image file''), empty_session)"
  by (simp add: draw_slide_content_venv_def draw_shape_venv_def Image_new_def picture_shape_def
        example_library_def)

lemma draw_shape_venv_agrees:
  "Image_open_blob lib (image_blob shape) = Inr pil_img \<or> shape_type shape \<noteq> 13 \<Longrightarrow>
   fst (draw_shape lib shape img) = draw_shape_venv lib shape img \<and> snd (draw_shape lib shape img) = []"
  by (auto simp: draw_shape_def draw_shape_venv_def Let_def split: sum.splits)

section \<open>Checks of the library model\<close>

text \<open>
  A font that covers a pixel to 137 of 255 writes the ink colour with alpha 137 on the
  transparent layer; composited over white, the served pixel is (255, 118, 118).
\<close>

lemma partial_coverage_served_pixel:
  "blend_rgba 137 (255, 255, 255, 0) (255, 0, 0, 255) = (255, 0, 0, 137) \<and>
   alpha_composite_px (255, 255, 255, 255) (255, 0, 0, 137) = (255, 118, 118, 255) \<and>
   pixel_of (overlay_comments soft_font_library ''original_slides/slide_1.png'' [''Looks good'']
               [''original_slides/slide_1.png'' \<mapsto> white_30x50]) 10 10 = Some (255, 118, 118)"
  by (simp add: pixel_of_def overlay_eval soft_font_library_def demo_library_def white_30x50_def)

text \<open>
  An upload whose name has a path separator is refused when the temporary copy is created:
  Convert answers 500 and the session, its comments and files included, is as before.
\<close>

lemma convert_ppt_temp_file_refused:
  "open_wb lib (''temp_'' @ filename) = Inl e \<Longrightarrow> has_pptx_suffix_any_case filename \<Longrightarrow>
   convert_ppt lib filename contents s =
     (Raise (HTTPException 500 (InternalServerError e)),
      s\<lparr>logged := logged s @ [(ERROR, ''Error in convert_ppt: {}'', e)]\<rparr>)"
  by (simp add: convert_ppt_def convert_ppt_try_def endswith_lower_pptx)

lemma convert_ppt_name_with_separator:
  "status_code (fst (convert_ppt demo_library ''a/deck.pptx'' [] commented_session)) = 500 \<and>
   comments_store (snd (convert_ppt demo_library ''a/deck.pptx'' [] commented_session)) =
     comments_store commented_session \<and>
   files (snd (convert_ppt demo_library ''a/deck.pptx'' [] commented_session)) =
     files commented_session"
  by (simp add: convert_ppt_def convert_ppt_try_def demo_library_def endswith_def lower_def
        lower_char_def char_of_eq_iff take_bit_eq_mod)

text \<open>
  A canvas with a zero side is created but not saved: the slide raises and no file is
  written.
\<close>

lemma zero_canvas_not_saved:
  "fst (draw_slide_content lib \<lparr>shapes = []\<rparr> 0 720 output_path s) =
     Inl (Exception ''SystemError: tile cannot extend outside image'') \<and>
   snd (draw_slide_content lib \<lparr>shapes = []\<rparr> 0 720 output_path s) = s"
  by (simp add: draw_slide_content_def Image_new_def Image_save_def)

end
